theory Spec2Isabelle
  imports Main "HOL-Library.AList"
begin

section \<open>Python values used by MechanicalSoup\<close>

text \<open>
  Exceptions are values. The first seven constructors are the Python exceptions that
  \<^verbatim>\<open>stateful_browser.py\<close> and \<^verbatim>\<open>utils.py\<close> raise themselves or that indexing raises
  for them; \<open>LibraryError\<close> stands for whatever requests, bs4, re, urllib or the
  collaborating classes \<^verbatim>\<open>Browser\<close> and \<^verbatim>\<open>Form\<close> raise. \<open>OutsideModel\<close> is not a
  Python exception: it marks the two situations that a forest of finite trees cannot
  represent (a reference to a tag that is in no tree, and a tag appended below one of
  its own descendants, where bs4 silently builds a cyclic structure).
\<close>

datatype error =
    AttributeError
  | ValueError
  | RuntimeError
  | LinkNotFoundError
  | IndexError
  | TypeError
  | KeyError
  | LibraryError string
  | OutsideModel

text \<open>
  \<^verbatim>\<open>str.lower()\<close> on the ASCII letters. HOL characters are bytes, so the model covers
  attribute values written in ASCII.
\<close>

definition lower_char :: "char \<Rightarrow> char" where
  "lower_char c =
     (case map_of (zip ''ABCDEFGHIJKLMNOPQRSTUVWXYZ'' ''abcdefghijklmnopqrstuvwxyz'') c of
        None \<Rightarrow> c
      | Some l \<Rightarrow> l)"

definition lower :: "string \<Rightarrow> string" where
  "lower s = map lower_char s"

section \<open>The bs4 document tree\<close>

text \<open>
  A bs4 attribute value is a string or, for a multi-valued attribute, a list of strings.
  A \<^verbatim>\<open>Tag\<close> is a Python object: \<open>ident\<close> is its identity, \<open>attrs\<close> its attribute
  dictionary and \<open>contents\<close> its children. A \<^verbatim>\<open>BeautifulSoup\<close> object is the root tag
  of its tree.
\<close>

datatype attr_value = Str string | StrList "string list"

datatype node =
    Tag (ident: nat) (name: string) (attrs: "(string \<times> attr_value) list") (contents: "node list")
  | NavigableString string

text \<open>\<^verbatim>\<open>tag.get(key, default)\<close>, \<^verbatim>\<open>tag.has_attr(key)\<close> and \<^verbatim>\<open>tag[key]\<close>.\<close>

definition get :: "node \<Rightarrow> string \<Rightarrow> attr_value \<Rightarrow> attr_value" where
  "get tag key dflt = (case map_of (attrs tag) key of None \<Rightarrow> dflt | Some v \<Rightarrow> v)"

definition has_attr :: "node \<Rightarrow> string \<Rightarrow> bool" where
  "has_attr tag key = (map_of (attrs tag) key \<noteq> None)"

definition getitem :: "node \<Rightarrow> string \<Rightarrow> error + attr_value" where
  "getitem tag key = (case map_of (attrs tag) key of None \<Rightarrow> Inl KeyError | Some v \<Rightarrow> Inr v)"

text \<open>
  \<^verbatim>\<open>tag.descendants\<close>: every node below a tag, in document order. \<^verbatim>\<open>tag.text\<close> is
  \<^verbatim>\<open>get_text()\<close>: the strings below the tag, concatenated.
\<close>

fun descendants :: "node \<Rightarrow> node list" where
  "descendants (Tag i n a cs) = concat (map (\<lambda>c. c # descendants c) cs)"
| "descendants (NavigableString s) = []"

fun get_text :: "node \<Rightarrow> string" where
  "get_text (Tag i n a cs) = concat (map get_text cs)"
| "get_text (NavigableString s) = s"

text \<open>
  \<^verbatim>\<open>find_all(name, recursive=True, limit=None, **kwargs)\<close>, as the bs4 documentation
  describes it: the tags below \<open>tag\<close> (its children only when \<open>recursive\<close> is false)
  with the given name whose attributes pass every keyword filter, cut after \<open>limit\<close>
  results (\<open>0\<close> stands for no limit, Python's \<^verbatim>\<open>None\<close>). A filter is \<^verbatim>\<open>True\<close>
  (the attribute is present) or a string (the attribute has this value; a multi-valued
  attribute matches when one of its values or their join does).
\<close>

datatype attr_filter = IsPresent | Equals string

record bs4_kwargs =
  recursive :: bool
  limit :: nat
  attr_filters :: "(string \<times> attr_filter) list"

definition no_bs4_kwargs :: bs4_kwargs where
  "no_bs4_kwargs = \<lparr>recursive = True, limit = 0, attr_filters = []\<rparr>"

fun join :: "string \<Rightarrow> string list \<Rightarrow> string" where
  "join sep [] = []"
| "join sep [x] = x"
| "join sep (x # y # ys) = x @ sep @ join sep (y # ys)"

definition attr_matches :: "attr_value option \<Rightarrow> attr_filter \<Rightarrow> bool" where
  "attr_matches v f =
     (case f of
        IsPresent \<Rightarrow> v \<noteq> None
      | Equals s \<Rightarrow>
          (case v of
             None \<Rightarrow> False
           | Some (Str x) \<Rightarrow> x = s
           | Some (StrList xs) \<Rightarrow> s \<in> set xs \<or> join '' '' xs = s))"

definition tag_matches :: "string \<Rightarrow> (string \<times> attr_filter) list \<Rightarrow> node \<Rightarrow> bool" where
  "tag_matches nm flt e =
     (case e of
        NavigableString _ \<Rightarrow> False
      | Tag _ n a _ \<Rightarrow> n = nm \<and> list_all (\<lambda>(k, f). attr_matches (map_of a k) f) flt)"

definition find_all ::
  "node \<Rightarrow> string \<Rightarrow> (string \<times> attr_filter) list \<Rightarrow> bs4_kwargs \<Rightarrow> node list" where
  "find_all tag nm flt kw =
     (let pool = (if recursive kw then descendants tag else contents tag);
          hits = filter (tag_matches nm (flt @ attr_filters kw)) pool
      in if limit kw = 0 then hits else take (limit kw) hits)"

subsection \<open>The objects of the Python heap\<close>

text \<open>
  The tags that exist are kept as a forest: the parsed pages and the detached tags, each
  a tree. A reference to a tag is its \<open>ident\<close>; \<open>lookup_tag\<close> reads the object a
  reference points to.
\<close>

definition is_object :: "nat \<Rightarrow> node \<Rightarrow> bool" where
  "is_object i e = (case e of NavigableString _ \<Rightarrow> False | Tag j _ _ _ \<Rightarrow> j = i)"

definition all_nodes :: "node list \<Rightarrow> node list" where
  "all_nodes forest = concat (map (\<lambda>r. r # descendants r) forest)"

definition lookup_tag :: "node list \<Rightarrow> nat \<Rightarrow> node option" where
  "lookup_tag forest i = find (is_object i) (all_nodes forest)"

text \<open>
  \<^verbatim>\<open>tag.append(new_child)\<close> moves an element: bs4 first takes \<open>new_child\<close> out of the
  place where it is (\<^verbatim>\<open>extract()\<close>) and then makes it the last child of \<open>tag\<close>.
  Appending a tag to itself raises \<^verbatim>\<open>ValueError\<close>. \<^verbatim>\<open>tag.extend(tags)\<close> appends
  the elements one after the other; an exception leaves the earlier ones moved.
\<close>

fun remove_tag :: "nat \<Rightarrow> node \<Rightarrow> node" where
  "remove_tag i (Tag j n a cs) =
     Tag j n a (filter (\<lambda>c. \<not> is_object i c) (map (remove_tag i) cs))"
| "remove_tag i (NavigableString s) = NavigableString s"

definition extract_tag :: "nat \<Rightarrow> node list \<Rightarrow> node list" where
  "extract_tag i forest = filter (\<lambda>c. \<not> is_object i c) (map (remove_tag i) forest)"

fun append_child :: "nat \<Rightarrow> node \<Rightarrow> node \<Rightarrow> node" where
  "append_child p c (Tag j n a cs) =
     (if j = p then Tag j n a (cs @ [c]) else Tag j n a (map (append_child p c) cs))"
| "append_child p c (NavigableString s) = NavigableString s"

definition tag_append :: "node list \<Rightarrow> nat \<Rightarrow> nat \<Rightarrow> error option \<times> node list" where
  "tag_append forest p c =
     (if c = p then (Some ValueError, forest)
      else case lookup_tag forest c of
             None \<Rightarrow> (Some OutsideModel, forest)
           | Some child \<Rightarrow>
               if lookup_tag forest p = None \<or> lookup_tag [child] p \<noteq> None
               then (Some OutsideModel, forest)
               else (None, map (append_child p child) (extract_tag c forest)))"

fun tag_extend :: "node list \<Rightarrow> nat \<Rightarrow> nat list \<Rightarrow> error option \<times> node list" where
  "tag_extend forest p [] = (None, forest)"
| "tag_extend forest p (c # cs) =
     (case tag_append forest p c of
        (Some e, forest') \<Rightarrow> (Some e, forest')
      | (None, forest') \<Rightarrow> tag_extend forest' p cs)"

section \<open>utils.py\<close>

text \<open>
  \<^verbatim>\<open>
  def is_multipart_file_upload(form, tag):
      enctype = form.get("enctype", "")
      tag_type = tag.get("type", "")
      if not isinstance(enctype, str) or not isinstance(tag_type, str):
          return False
      return (enctype == "multipart/form-data" and tag_type.lower() == "file")
  \<close>
\<close>

definition is_multipart_file_upload :: "node \<Rightarrow> node \<Rightarrow> bool" where
  "is_multipart_file_upload form tag =
     (let enctype = get form ''enctype'' (Str '''');
          tag_type = get tag ''type'' (Str '''')
      in case enctype of
           StrList _ \<Rightarrow> False
         | Str e \<Rightarrow>
             (case tag_type of
                StrList _ \<Rightarrow> False
              | Str t \<Rightarrow> e = ''multipart/form-data'' \<and> lower t = ''file''))"

section \<open>requests: headers, keyword arguments, responses\<close>

text \<open>
  \<^verbatim>\<open>requests.structures.CaseInsensitiveDict\<close> keeps, under the lowercased key, the key
  as it was last written and the value. It is built from a dictionary (or from another
  \<^verbatim>\<open>CaseInsensitiveDict\<close>, or from \<^verbatim>\<open>None\<close>) by setting the items in order.
\<close>

type_synonym cidict = "(string \<times> string \<times> string) list"

datatype headers_arg = Dict "(string \<times> string) list" | CIDict cidict

definition ci_setitem :: "cidict \<Rightarrow> string \<Rightarrow> string \<Rightarrow> cidict" where
  "ci_setitem d k v = AList.update (lower k) (k, v) d"

definition ci_contains :: "cidict \<Rightarrow> string \<Rightarrow> bool" where
  "ci_contains d k = (map_of d (lower k) \<noteq> None)"

definition ci_getitem :: "cidict \<Rightarrow> string \<Rightarrow> string option" where
  "ci_getitem d k = map_option snd (map_of d (lower k))"

definition CaseInsensitiveDict :: "headers_arg option \<Rightarrow> cidict" where
  "CaseInsensitiveDict data =
     foldl (\<lambda>d (k, v). ci_setitem d k v) []
       (case data of None \<Rightarrow> [] | Some (Dict items) \<Rightarrow> items | Some (CIDict d) \<Rightarrow> map snd d)"

text \<open>
  The keyword arguments handed to requests: \<open>headers\<close> is \<^verbatim>\<open>kwargs.get('headers')\<close>
  (\<open>None\<close> when the key is absent or holds \<^verbatim>\<open>None\<close>), \<open>other\<close> the remaining keys.
\<close>

record kwargs =
  headers :: "headers_arg option"
  other :: "(string \<times> string) list"

record prepared_request =
  req_method :: string
  req_url :: string
  req_headers :: "(string \<times> string) list"
  body :: string

text \<open>
  \<^verbatim>\<open>_types.Response\<close>: a \<^verbatim>\<open>requests.Response\<close> extended with \<open>soup\<close>, a reference to
  the parsed page or \<^verbatim>\<open>None\<close>.
\<close>

record response =
  soup :: "nat option"
  resp_url :: string
  resp_request :: "prepared_request option"
  status_code :: int
  content :: string

section \<open>The browser, the heap and the collaborators\<close>

text \<open>
  Modelled from the spec: \<^verbatim>\<open>form.py\<close> is not among the sources. A \<^verbatim>\<open>Form\<close> "wraps a
  single DOM element"; \<open>wrapped\<close> is the reference to that tag and \<open>oid\<close> the identity
  of the \<^verbatim>\<open>Form\<close> object, so that two forms made from one tag stay distinct objects.
\<close>

record Form =
  oid :: nat
  wrapped :: nat

text \<open>
  The arguments of the public methods. \<open>selector\<close> is \<^verbatim>\<open>str | Tag\<close>, \<open>btn\<close> is
  \<^verbatim>\<open>Tag | str | None | bool\<close> and \<open>link_arg\<close> is \<^verbatim>\<open>Tag | str | None\<close>. The value
  that ends up as \<^verbatim>\<open>url_regex\<close> is a string or, when a tag without \<^verbatim>\<open>href\<close> was
  given as the link, that tag. \<open>links_kwargs\<close> is the dictionary
  \<^verbatim>\<open>{**bs4_kwargs, **kwargs}\<close>: \<open>url_regex\<close> is \<open>None\<close> when the key is absent and
  \<open>Some None\<close> when it holds \<^verbatim>\<open>None\<close>; the keys that \<^verbatim>\<open>links\<close> forwards to
  \<^verbatim>\<open>find_all\<close> are in \<open>bs4\<close>. Extra positional arguments are not modelled.
\<close>

datatype selector = Css string | TagSel nat

datatype btn = BtnNone | BtnBool bool | BtnName string | BtnTag nat

datatype link_arg = LinkNone | LinkStr string | LinkTag nat

datatype regex_arg = Pattern string | NotPattern nat

record links_kwargs =
  url_regex :: "regex_arg option option"
  link_text :: "string option"
  bs4 :: bs4_kwargs

definition no_links_kwargs :: links_kwargs where
  "no_links_kwargs = \<lparr>url_regex = None, link_text = None, bs4 = no_bs4_kwargs\<rparr>"

text \<open>What is written to standard output, and the calls made to the HTTP layer.\<close>

datatype pyobj = PStr string | PSelector selector | PKwargs links_kwargs | PTag node

datatype out = Write string | Print "pyobj list"

datatype call =
    BrowserGet string kwargs
  | BrowserSubmit Form "string option" kwargs
  | SessionSend prepared_request
  | SessionGet string kwargs

text \<open>
  Everything outside the browser object: the tag objects (\<open>heap\<close>), the counter that
  names new \<^verbatim>\<open>Form\<close> objects, the calls made to the HTTP layer with their arguments,
  the files written and the output printed.
\<close>

record world =
  heap :: "node list"
  next_oid :: nat
  calls :: "call list"
  files :: "(string \<times> string) list"
  stdout :: "out list"

text \<open>
  \<^verbatim>\<open>_BrowserState\<close>: four fields, each a reference or an immutable value.
  \<^verbatim>\<open>StatefulBrowser\<close>: its own private fields and the fields of \<^verbatim>\<open>Browser\<close> that the
  methods read (\<open>session\<close> is \<^verbatim>\<open>None\<close> once the browser is closed).
\<close>

record BrowserState =
  page :: "nat option"
  url :: "string option"
  form :: "Form option"
  request :: "prepared_request option"

record StatefulBrowser =
  debug :: bool
  verbose :: int
  state :: BrowserState
  session :: "nat option"
  soup_config :: "(string \<times> string) list"
  raise_on_404 :: bool

text \<open>
  The code that is not in \<^verbatim>\<open>stateful_browser.py\<close> is a parameter: the methods of
  \<^verbatim>\<open>Browser\<close> and \<^verbatim>\<open>Form\<close> (other modules of the package), the requests session, the
  CSS selector engine behind \<^verbatim>\<open>select\<close>, \<^verbatim>\<open>re.search\<close> and \<^verbatim>\<open>urljoin\<close>. Each of
  them sees the world as it is when called, may raise, and returns the new heap when it
  creates or changes tag objects (\<^verbatim>\<open>Browser.get\<close>, \<^verbatim>\<open>Browser.submit\<close> and
  \<^verbatim>\<open>Browser.add_soup\<close> parse a page; the methods of \<^verbatim>\<open>Form\<close> edit the document).
  \<^verbatim>\<open>Browser.add_soup\<close> returns the reference it stores in \<^verbatim>\<open>response.soup\<close>.
\<close>

record env =
  Browser_get :: "world \<Rightarrow> string \<Rightarrow> kwargs \<Rightarrow> (error + response) \<times> node list"
  Browser_submit ::
    "world \<Rightarrow> Form \<Rightarrow> string option \<Rightarrow> kwargs \<Rightarrow> (error + response) \<times> node list"
  Browser_add_soup ::
    "world \<Rightarrow> response \<Rightarrow> (string \<times> string) list \<Rightarrow> (error + nat option) \<times> node list"
  Browser_launch_browser :: "world \<Rightarrow> nat \<Rightarrow> error option"
  Form_choose_submit :: "world \<Rightarrow> Form \<Rightarrow> btn \<Rightarrow> error option \<times> node list"
  Form_setitem :: "world \<Rightarrow> Form \<Rightarrow> string \<Rightarrow> string \<Rightarrow> error option \<times> node list"
  session_send :: "world \<Rightarrow> prepared_request \<Rightarrow> error + response"
  session_get :: "world \<Rightarrow> string \<Rightarrow> kwargs \<Rightarrow> error + response"
  css_select :: "string \<Rightarrow> node \<Rightarrow> error + nat list"
  re_search :: "string \<Rightarrow> string \<Rightarrow> error + bool"
  urljoin :: "string \<Rightarrow> string \<Rightarrow> error + string"

section \<open>stateful\_browser.py\<close>

subsection \<open>Accessors\<close>

text \<open>
  The properties \<^verbatim>\<open>page\<close>, \<^verbatim>\<open>url\<close> and \<^verbatim>\<open>form\<close>, the aliases set in \<^verbatim>\<open>__init__\<close>
  and \<^verbatim>\<open>get_debug\<close>. The constructor starts from \<^verbatim>\<open>_BrowserState()\<close>.
\<close>

definition empty_state :: BrowserState where
  "empty_state = \<lparr>page = None, url = None, form = None, request = None\<rparr>"

definition get_debug :: "StatefulBrowser \<Rightarrow> bool" where
  "get_debug b = debug b"

definition page_property :: "StatefulBrowser \<Rightarrow> nat option" where
  "page_property b = page (state b)"

definition url_property :: "StatefulBrowser \<Rightarrow> string option" where
  "url_property b = url (state b)"

definition form_property :: "StatefulBrowser \<Rightarrow> error + Form" where
  "form_property b =
     (case form (state b) of None \<Rightarrow> Inl AttributeError | Some f \<Rightarrow> Inr f)"

definition get_current_page :: "StatefulBrowser \<Rightarrow> nat option" where
  "get_current_page b = page_property b"

definition get_current_form :: "StatefulBrowser \<Rightarrow> Form option" where
  "get_current_form b = form (state b)"

definition get_url :: "StatefulBrowser \<Rightarrow> string option" where
  "get_url b = url_property b"

text \<open>\<^verbatim>\<open>__setitem__\<close>: \<^verbatim>\<open>self.form[name] = value\<close>.\<close>

definition setitem ::
  "env \<Rightarrow> world \<Rightarrow> StatefulBrowser \<Rightarrow> string \<Rightarrow> string \<Rightarrow> error option \<times> world \<times> StatefulBrowser"
  where
  "setitem env w b nm v =
     (case form_property b of
        Inl e \<Rightarrow> (Some e, w, b)
      | Inr f \<Rightarrow>
          (case Form_setitem env w f nm v of (r, h) \<Rightarrow> (r, w\<lparr>heap := h\<rparr>, b)))"

subsection \<open>Navigation\<close>

text \<open>
  \<^verbatim>\<open>absolute_url\<close>: \<^verbatim>\<open>current_url = self.url or ""\<close>, then \<^verbatim>\<open>urljoin\<close>.
\<close>

definition absolute_url :: "env \<Rightarrow> StatefulBrowser \<Rightarrow> string \<Rightarrow> error + string" where
  "absolute_url env b u =
     (let current_url = (case url_property b of None \<Rightarrow> '''' | Some c \<Rightarrow> c)
      in urljoin env current_url u)"

text \<open>
  \<^verbatim>\<open>
  def open(self, url, *args, **kwargs):
      if self.__verbose == 1:
          sys.stdout.write('.'); sys.stdout.flush()
      elif self.__verbose >= 2:
          print(url)
      resp = self.get(url, *args, **kwargs)
      self.__state = _BrowserState(page=resp.soup, url=resp.url, request=resp.request)
      return resp
  \<close>
  \<open>verbose_output\<close> is the first \<^verbatim>\<open>if\<close> statement.
  \<open>new_state\<close> is the constructor call \<^verbatim>\<open>_BrowserState(page=resp.soup, url=resp.url,
  request=resp.request)\<close>, which the three navigations share; \<open>form\<close> takes its default.
\<close>

definition new_state :: "response \<Rightarrow> BrowserState" where
  "new_state resp =
     \<lparr>page = soup resp, url = Some (resp_url resp), form = None, request = resp_request resp\<rparr>"

definition verbose_output :: "world \<Rightarrow> StatefulBrowser \<Rightarrow> string \<Rightarrow> world" where
  "verbose_output w b u =
     (if verbose b = 1 then w\<lparr>stdout := stdout w @ [Write ''.'']\<rparr>
      else if verbose b \<ge> 2 then w\<lparr>stdout := stdout w @ [Print [PStr u]]\<rparr>
      else w)"

definition "open" ::
  "env \<Rightarrow> world \<Rightarrow> StatefulBrowser \<Rightarrow> string \<Rightarrow> kwargs \<Rightarrow>
     (error + response) \<times> world \<times> StatefulBrowser" where
  "open env w b u kw =
     (let w1 = verbose_output w b u;
          w2 = w1\<lparr>calls := calls w1 @ [BrowserGet u kw]\<rparr>
      in case Browser_get env w1 u kw of
           (Inl e, h) \<Rightarrow> (Inl e, w2\<lparr>heap := h\<rparr>, b)
         | (Inr resp, h) \<Rightarrow> (Inr resp, w2\<lparr>heap := h\<rparr>, b\<lparr>state := new_state resp\<rparr>))"

definition open_relative ::
  "env \<Rightarrow> world \<Rightarrow> StatefulBrowser \<Rightarrow> string \<Rightarrow> kwargs \<Rightarrow>
     (error + response) \<times> world \<times> StatefulBrowser" where
  "open_relative env w b u kw =
     (case absolute_url env b u of
        Inl e \<Rightarrow> (Inl e, w, b)
      | Inr a \<Rightarrow> open env w b a kw)"

text \<open>
  \<^verbatim>\<open>
  def refresh(self):
      old_request = self.__state.request
      if old_request is None:
          raise ValueError(...)
      if not self.session:
          raise RuntimeError("Session is closed")
      resp = cast(Response, self.session.send(old_request))
      Browser.add_soup(resp, self.soup_config)
      self.__state = _BrowserState(page=resp.soup, url=resp.url, request=resp.request)
      return resp
  \<close>
\<close>

definition refresh ::
  "env \<Rightarrow> world \<Rightarrow> StatefulBrowser \<Rightarrow> (error + response) \<times> world \<times> StatefulBrowser" where
  "refresh env w b =
     (case request (state b) of
        None \<Rightarrow> (Inl ValueError, w, b)
      | Some old_request \<Rightarrow>
          (case session b of
             None \<Rightarrow> (Inl RuntimeError, w, b)
           | Some _ \<Rightarrow>
               (let w1 = w\<lparr>calls := calls w @ [SessionSend old_request]\<rparr>
                in case session_send env w old_request of
                     Inl e \<Rightarrow> (Inl e, w1, b)
                   | Inr raw \<Rightarrow>
                       (case Browser_add_soup env w1 raw (soup_config b) of
                          (Inl e, h) \<Rightarrow> (Inl e, w1\<lparr>heap := h\<rparr>, b)
                        | (Inr s, h) \<Rightarrow>
                            (let resp = raw\<lparr>soup := s\<rparr>
                             in (Inr resp, w1\<lparr>heap := h\<rparr>, b\<lparr>state := new_state resp\<rparr>))))))"

subsection \<open>Referer and form submission\<close>

text \<open>
  \<^verbatim>\<open>
  def _merge_referer(self, **kwargs):
      referer = self.url
      headers = CaseInsensitiveDict(kwargs.get('headers', {}))
      if referer is not None and 'Referer' not in headers:
          headers['Referer'] = referer
          kwargs['headers'] = headers
      return kwargs
  \<close>
\<close>

definition merge_referer :: "StatefulBrowser \<Rightarrow> kwargs \<Rightarrow> kwargs" where
  "merge_referer b kw =
     (let referer = url_property b;
          hdrs = CaseInsensitiveDict (headers kw)
      in case referer of
           None \<Rightarrow> kw
         | Some r \<Rightarrow>
             if \<not> ci_contains hdrs ''Referer''
             then kw\<lparr>headers := Some (CIDict (ci_setitem hdrs ''Referer'' r))\<rparr>
             else kw)"

text \<open>
  \<^verbatim>\<open>
  def submit_selected(self, btnName=None, update_state=True, **kwargs):
      self.form.choose_submit(btnName)
      kwargs = self._merge_referer(**kwargs)
      form_obj = self.__state.form
      if not form_obj:
          raise AttributeError("No form has been selected")
      resp = self.submit(form_obj, url=self.__state.url, **kwargs)
      if update_state:
          self.__state = _BrowserState(page=resp.soup, url=resp.url, request=resp.request)
      return resp
  \<close>
\<close>

definition submit_selected ::
  "env \<Rightarrow> world \<Rightarrow> StatefulBrowser \<Rightarrow> btn \<Rightarrow> bool \<Rightarrow> kwargs \<Rightarrow>
     (error + response) \<times> world \<times> StatefulBrowser" where
  "submit_selected env w b btnName update_state kw =
     (case form_property b of
        Inl e \<Rightarrow> (Inl e, w, b)
      | Inr f \<Rightarrow>
          (case Form_choose_submit env w f btnName of
             (Some e, h) \<Rightarrow> (Inl e, w\<lparr>heap := h\<rparr>, b)
           | (None, h) \<Rightarrow>
               (let w1 = w\<lparr>heap := h\<rparr>;
                    kw' = merge_referer b kw
                in case form (state b) of
                     None \<Rightarrow> (Inl AttributeError, w1, b)
                   | Some form_obj \<Rightarrow>
                       (let w2 = w1\<lparr>calls := calls w1 @ [BrowserSubmit form_obj (url (state b)) kw']\<rparr>
                        in case Browser_submit env w1 form_obj (url (state b)) kw' of
                             (Inl e, h') \<Rightarrow> (Inl e, w2\<lparr>heap := h'\<rparr>, b)
                           | (Inr resp, h') \<Rightarrow>
                               (Inr resp, w2\<lparr>heap := h'\<rparr>,
                                if update_state then b\<lparr>state := new_state resp\<rparr> else b)))))"

subsection \<open>Links\<close>

text \<open>
  \<^verbatim>\<open>re.search(url_regex, a['href'])\<close> raises \<^verbatim>\<open>TypeError\<close> when the pattern is a tag.
  \<open>filter_href\<close> is the list comprehension
  \<^verbatim>\<open>[a for a in result if (isinstance(a['href'], str) and re.search(url_regex, a['href']))]\<close>,
  which stops at the first exception.
\<close>

definition search :: "env \<Rightarrow> regex_arg \<Rightarrow> string \<Rightarrow> error + bool" where
  "search env rx s = (case rx of Pattern p \<Rightarrow> re_search env p s | NotPattern _ \<Rightarrow> Inl TypeError)"

fun filter_href :: "env \<Rightarrow> regex_arg \<Rightarrow> node list \<Rightarrow> error + node list" where
  "filter_href env rx [] = Inr []"
| "filter_href env rx (a # as) =
     (case getitem a ''href'' of
        Inl e \<Rightarrow> Inl e
      | Inr (StrList _) \<Rightarrow> filter_href env rx as
      | Inr (Str h) \<Rightarrow>
          (case search env rx h of
             Inl e \<Rightarrow> Inl e
           | Inr m \<Rightarrow>
               (case filter_href env rx as of
                  Inl e \<Rightarrow> Inl e
                | Inr r \<Rightarrow> Inr (if m then a # r else r))))"

text \<open>
  \<^verbatim>\<open>
  def links(self, url_regex=None, link_text=None, *args, **kwargs):
      page = self.page
      if not page:
          return []
      all_links = page.find_all('a', href=True, *args, **kwargs)
      result = [link for link in all_links if isinstance(link, Tag)]
      if url_regex is not None:
          result = [a for a in result
                    if (isinstance(a['href'], str) and re.search(url_regex, a['href']))]
      if link_text is not None:
          result = [a for a in result if a.text == link_text]
      return result
  \<close>
  A \<^verbatim>\<open>BeautifulSoup\<close> object is true whatever it contains, so \<^verbatim>\<open>not page\<close> means that
  no page is stored. A second \<^verbatim>\<open>href\<close> among the forwarded keywords is a
  \<^verbatim>\<open>TypeError\<close> of the call itself.
\<close>

definition links :: "env \<Rightarrow> world \<Rightarrow> StatefulBrowser \<Rightarrow> links_kwargs \<Rightarrow> error + node list" where
  "links env w b kw =
     (case page_property b of
        None \<Rightarrow> Inr []
      | Some p \<Rightarrow>
          (case lookup_tag (heap w) p of
             None \<Rightarrow> Inl OutsideModel
           | Some pg \<Rightarrow>
               if ''href'' \<in> fst ` set (attr_filters (bs4 kw)) then Inl TypeError
               else
                 (let all_links = find_all pg ''a'' [(''href'', IsPresent)] (bs4 kw);
                      result = filter is_Tag all_links
                  in case (case url_regex kw of
                             Some (Some rx) \<Rightarrow> filter_href env rx result
                           | _ \<Rightarrow> Inr result) of
                       Inl e \<Rightarrow> Inl e
                     | Inr result \<Rightarrow>
                         Inr (case link_text kw of
                                None \<Rightarrow> result
                              | Some t \<Rightarrow> filter (\<lambda>a. get_text a = t) result))))"

text \<open>
  \<^verbatim>\<open>
  def find_link(self, *args, **kwargs):
      links = self.links(*args, **kwargs)
      if len(links) == 0:
          raise LinkNotFoundError()
      else:
          return links[0]
  \<close>
\<close>

definition find_link :: "env \<Rightarrow> world \<Rightarrow> StatefulBrowser \<Rightarrow> links_kwargs \<Rightarrow> error + node" where
  "find_link env w b kw =
     (case links env w b kw of
        Inl e \<Rightarrow> Inl e
      | Inr ls \<Rightarrow> if length ls = 0 then Inl LinkNotFoundError else Inr (ls ! 0))"

text \<open>
  \<^verbatim>\<open>list_links\<close> prints the header and then one line per link; \<^verbatim>\<open>launch_browser\<close>
  raises \<^verbatim>\<open>ValueError\<close> when there is no page to display and calls
  \<^verbatim>\<open>Browser.launch_browser\<close> otherwise.
\<close>

definition list_links ::
  "env \<Rightarrow> world \<Rightarrow> StatefulBrowser \<Rightarrow> links_kwargs \<Rightarrow> error option \<times> world" where
  "list_links env w b kw =
     (let w1 = w\<lparr>stdout := stdout w @ [Print [PStr ''Links in the current page:'']]\<rparr>
      in case links env w1 b kw of
           Inl e \<Rightarrow> (Some e, w1)
         | Inr ls \<Rightarrow>
             (None, w1\<lparr>stdout := stdout w1 @ map (\<lambda>l. Print [PStr ''    '', PTag l]) ls\<rparr>))"

definition launch_browser ::
  "env \<Rightarrow> world \<Rightarrow> StatefulBrowser \<Rightarrow> nat option \<Rightarrow> error option" where
  "launch_browser env w b soup_arg =
     (case (case soup_arg of None \<Rightarrow> page_property b | Some s \<Rightarrow> Some s) of
        None \<Rightarrow> Some ValueError
      | Some s \<Rightarrow> Browser_launch_browser env w s)"

text \<open>
  \<^verbatim>\<open>
  def _find_link_internal(self, link, args, kwargs):
      if isinstance(link, Tag) and 'href' in link.attrs:
          return link
      if link and 'url_regex' in kwargs:
          raise ValueError(...)
      elif link:
          kwargs['url_regex'] = link
      try:
          return self.find_link(*args, **kwargs)
      except LinkNotFoundError:
          if self.get_debug():
              print('find_link failed for', kwargs)
              self.list_links()
              self.launch_browser()
          raise
  \<close>
  A string is true when it is not empty, a tag always.
\<close>

definition truthy :: "link_arg \<Rightarrow> bool" where
  "truthy link = (case link of LinkNone \<Rightarrow> False | LinkStr s \<Rightarrow> s \<noteq> [] | LinkTag _ \<Rightarrow> True)"

definition as_url_regex :: "link_arg \<Rightarrow> regex_arg option" where
  "as_url_regex link =
     (case link of LinkNone \<Rightarrow> None | LinkStr s \<Rightarrow> Some (Pattern s) | LinkTag t \<Rightarrow> Some (NotPattern t))"

definition find_link_internal ::
  "env \<Rightarrow> world \<Rightarrow> StatefulBrowser \<Rightarrow> link_arg \<Rightarrow> links_kwargs \<Rightarrow> (error + node) \<times> world" where
  "find_link_internal env w b link kw =
     (case (case link of
              LinkTag t \<Rightarrow>
                (case lookup_tag (heap w) t of
                   None \<Rightarrow> Inl OutsideModel
                 | Some tag \<Rightarrow> Inr (if has_attr tag ''href'' then Some tag else None))
            | _ \<Rightarrow> Inr None) of
        Inl e \<Rightarrow> (Inl e, w)
      | Inr (Some tag) \<Rightarrow> (Inr tag, w)
      | Inr None \<Rightarrow>
          if truthy link \<and> url_regex kw \<noteq> None then (Inl ValueError, w)
          else
            (let kw' = (if truthy link then kw\<lparr>url_regex := Some (as_url_regex link)\<rparr> else kw)
             in case find_link env w b kw' of
                  Inr tag \<Rightarrow> (Inr tag, w)
                | Inl e \<Rightarrow>
                    if e = LinkNotFoundError \<and> get_debug b
                    then
                      (let w1 = w\<lparr>stdout := stdout w @ [Print [PStr ''find_link failed for'', PKwargs kw']]\<rparr>
                       in case list_links env w1 b no_links_kwargs of
                            (Some e', w2) \<Rightarrow> (Inl e', w2)
                          | (None, w2) \<Rightarrow>
                              (case launch_browser env w2 b None of
                                 Some e' \<Rightarrow> (Inl e', w2)
                               | None \<Rightarrow> (Inl LinkNotFoundError, w2)))
                    else (Inl e, w)))"

text \<open>
  The lines shared by \<^verbatim>\<open>follow_link\<close> and \<^verbatim>\<open>download_link\<close>:
  \<^verbatim>\<open>
      href = link_tag['href']
      if isinstance(href, list):
          href = href[0] if href else ""
      ... str(href) ...
  \<close>
\<close>

definition href_str :: "node \<Rightarrow> error + string" where
  "href_str link_tag =
     (case getitem link_tag ''href'' of
        Inl e \<Rightarrow> Inl e
      | Inr (Str s) \<Rightarrow> Inr s
      | Inr (StrList []) \<Rightarrow> Inr ''''
      | Inr (StrList (x # _)) \<Rightarrow> Inr x)"

text \<open>
  \<^verbatim>\<open>
  def follow_link(self, link=None, *bs4_args, bs4_kwargs={}, requests_kwargs={}, **kwargs):
      link_tag = self._find_link_internal(link, bs4_args, {**bs4_kwargs, **kwargs})
      requests_kwargs = self._merge_referer(**requests_kwargs)
      href = link_tag['href']
      ...
      return self.open_relative(str(href), **requests_kwargs)
  \<close>
\<close>

definition follow_link ::
  "env \<Rightarrow> world \<Rightarrow> StatefulBrowser \<Rightarrow> link_arg \<Rightarrow> links_kwargs \<Rightarrow> kwargs \<Rightarrow>
     (error + response) \<times> world \<times> StatefulBrowser" where
  "follow_link env w b link kw requests_kwargs =
     (case find_link_internal env w b link kw of
        (Inl e, w1) \<Rightarrow> (Inl e, w1, b)
      | (Inr link_tag, w1) \<Rightarrow>
          (let requests_kwargs' = merge_referer b requests_kwargs
           in case href_str link_tag of
                Inl e \<Rightarrow> (Inl e, w1, b)
              | Inr href \<Rightarrow> open_relative env w1 b href requests_kwargs'))"

text \<open>
  \<^verbatim>\<open>
  def download_link(self, link=None, file=None, *bs4_args, bs4_kwargs={},
                    requests_kwargs={}, **kwargs):
      link_tag = self._find_link_internal(link, bs4_args, {**bs4_kwargs, **kwargs})
      href = link_tag['href']
      ...
      url = self.absolute_url(str(href))
      requests_kwargs = self._merge_referer(**requests_kwargs)
      if not self.session:
          raise RuntimeError("Session is closed")
      response = self.session.get(url, **requests_kwargs)
      if self.raise_on_404 and response.status_code == 404:
          raise LinkNotFoundError()
      if file is not None:
          with open(file, 'wb') as f:
              f.write(response.content)
      return response
  \<close>
  Writing the file replaces its contents; failures of the file system itself are not
  modelled.
\<close>

definition download_link ::
  "env \<Rightarrow> world \<Rightarrow> StatefulBrowser \<Rightarrow> link_arg \<Rightarrow> string option \<Rightarrow> links_kwargs \<Rightarrow> kwargs \<Rightarrow>
     (error + response) \<times> world \<times> StatefulBrowser" where
  "download_link env w b link file kw requests_kwargs =
     (case find_link_internal env w b link kw of
        (Inl e, w1) \<Rightarrow> (Inl e, w1, b)
      | (Inr link_tag, w1) \<Rightarrow>
          (case href_str link_tag of
             Inl e \<Rightarrow> (Inl e, w1, b)
           | Inr href \<Rightarrow>
               (case absolute_url env b href of
                  Inl e \<Rightarrow> (Inl e, w1, b)
                | Inr u \<Rightarrow>
                    (let requests_kwargs' = merge_referer b requests_kwargs
                     in case session b of
                          None \<Rightarrow> (Inl RuntimeError, w1, b)
                        | Some _ \<Rightarrow>
                            (let w2 = w1\<lparr>calls := calls w1 @ [SessionGet u requests_kwargs']\<rparr>
                             in case session_get env w1 u requests_kwargs' of
                                  Inl e \<Rightarrow> (Inl e, w2, b)
                                | Inr resp \<Rightarrow>
                                    if raise_on_404 b \<and> status_code resp = 404
                                    then (Inl LinkNotFoundError, w2, b)
                                    else
                                      (Inr resp,
                                       (case file of
                                          None \<Rightarrow> w2
                                        | Some f \<Rightarrow>
                                            w2\<lparr>files := AList.update f (content resp) (files w2)\<rparr>),
                                       b))))))"

subsection \<open>Selecting a form\<close>

text \<open>
  \<^verbatim>\<open>page.select(selector, limit=n)\<close>: the tags the CSS engine matches, in document
  order, cut after \<open>n\<close> results when \<open>n\<close> is at least 1.
\<close>

definition select :: "env \<Rightarrow> node \<Rightarrow> string \<Rightarrow> int \<Rightarrow> error + nat list" where
  "select env tag sel lim =
     (case css_select env sel tag of
        Inl e \<Rightarrow> Inl e
      | Inr found \<Rightarrow> Inr (if lim < 1 then found else take (nat lim) found))"

text \<open>
  \<^verbatim>\<open>
  def find_associated_elements(form_id):
      """Find all elements associated to a form
          (i.e. an element with a form attribute -> ``form=form_id``)
      """
      elements_with_owner_form = ("input", "button", "fieldset",
                                  "object", "output", "select", "textarea")
      found_elements = []
      page = self.page
      if not page:
          return found_elements
      for element in elements_with_owner_form:
          found_elements.extend(
              [e for e in page.find_all(element, form=form_id) if isinstance(e, Tag)])
      return found_elements
  \<close>
\<close>

definition elements_with_owner_form :: "string list" where
  "elements_with_owner_form =
     [''input'', ''button'', ''fieldset'', ''object'', ''output'', ''select'', ''textarea'']"

definition find_associated_elements ::
  "world \<Rightarrow> StatefulBrowser \<Rightarrow> string \<Rightarrow> error + node list" where
  "find_associated_elements w b form_id =
     (case page_property b of
        None \<Rightarrow> Inr []
      | Some p \<Rightarrow>
          (case lookup_tag (heap w) p of
             None \<Rightarrow> Inl OutsideModel
           | Some pg \<Rightarrow>
               Inr (foldl
                      (\<lambda>found_elements element.
                         found_elements @
                         filter is_Tag (find_all pg element [(''form'', Equals form_id)] no_bs4_kwargs))
                      [] elements_with_owner_form)))"

text \<open>
  \<^verbatim>\<open>
  def select_form(self, selector="form", nr=0):
      if isinstance(selector, bs4.element.Tag):
          if selector.name != "form":
              raise LinkNotFoundError
          form = selector
      else:
          page = self.page
          if not page:
              raise LinkNotFoundError("No page loaded")
          found_forms = page.select(selector, limit=nr + 1)
          if len(found_forms) != nr + 1:
              if self.__debug:
                  print('select_form failed for', selector)
                  self.launch_browser()
              raise LinkNotFoundError()
          form = found_forms[-1]
      if form and form.has_attr('id'):
          form_id_val = form["id"]
          if isinstance(form_id_val, str):
              form_id = form_id_val
              new_elements = find_associated_elements(form_id)
              form.extend(new_elements)
      self.__state.form = Form(form)
      return self.form
  \<close>
  \<open>matched_form\<close> is the first \<^verbatim>\<open>if\<close> statement and \<open>extend_form\<close> the second.
\<close>

definition matched_form ::
  "env \<Rightarrow> world \<Rightarrow> StatefulBrowser \<Rightarrow> selector \<Rightarrow> int \<Rightarrow> (error + nat) \<times> world" where
  "matched_form env w b selector nr =
     (case selector of
        TagSel t \<Rightarrow>
          (case lookup_tag (heap w) t of
             None \<Rightarrow> (Inl OutsideModel, w)
           | Some tag \<Rightarrow>
               if name tag \<noteq> ''form'' then (Inl LinkNotFoundError, w) else (Inr t, w))
      | Css s \<Rightarrow>
          (case page_property b of
             None \<Rightarrow> (Inl LinkNotFoundError, w)
           | Some p \<Rightarrow>
               (case lookup_tag (heap w) p of
                  None \<Rightarrow> (Inl OutsideModel, w)
                | Some pg \<Rightarrow>
                    (case select env pg s (nr + 1) of
                       Inl e \<Rightarrow> (Inl e, w)
                     | Inr found_forms \<Rightarrow>
                         if int (length found_forms) \<noteq> nr + 1
                         then
                           (if debug b
                            then
                              (let w1 = w\<lparr>stdout := stdout w @
                                           [Print [PStr ''select_form failed for'', PSelector selector]]\<rparr>
                               in case launch_browser env w1 b None of
                                    Some e \<Rightarrow> (Inl e, w1)
                                  | None \<Rightarrow> (Inl LinkNotFoundError, w1))
                            else (Inl LinkNotFoundError, w))
                         else
                           (case found_forms of
                              [] \<Rightarrow> (Inl IndexError, w)
                            | _ # _ \<Rightarrow> (Inr (last found_forms), w))))))"

definition extend_form :: "world \<Rightarrow> StatefulBrowser \<Rightarrow> nat \<Rightarrow> error option \<times> world" where
  "extend_form w b form_ref =
     (case lookup_tag (heap w) form_ref of
        None \<Rightarrow> (Some OutsideModel, w)
      | Some tag \<Rightarrow>
          if has_attr tag ''id''
          then
            (case getitem tag ''id'' of
               Inr (Str form_id) \<Rightarrow>
                 (case find_associated_elements w b form_id of
                    Inl e \<Rightarrow> (Some e, w)
                  | Inr new_elements \<Rightarrow>
                      (case tag_extend (heap w) form_ref (map ident new_elements) of
                         (r, h) \<Rightarrow> (r, w\<lparr>heap := h\<rparr>)))
             | _ \<Rightarrow> (None, w))
          else (None, w))"

definition select_form ::
  "env \<Rightarrow> world \<Rightarrow> StatefulBrowser \<Rightarrow> selector \<Rightarrow> int \<Rightarrow>
     (error + Form) \<times> world \<times> StatefulBrowser" where
  "select_form env w b selector nr =
     (case matched_form env w b selector nr of
        (Inl e, w1) \<Rightarrow> (Inl e, w1, b)
      | (Inr form_ref, w1) \<Rightarrow>
          (case extend_form w1 b form_ref of
             (Some e, w2) \<Rightarrow> (Inl e, w2, b)
           | (None, w2) \<Rightarrow>
               (let new_form = \<lparr>oid = next_oid w2, wrapped = form_ref\<rparr>;
                    b' = b\<lparr>state := (state b)\<lparr>form := Some new_form\<rparr>\<rparr>
                in (form_property b', w2\<lparr>next_oid := Suc (next_oid w2)\<rparr>, b'))))"

section \<open>The wording of the specification\<close>

text \<open>
  The predicates the specification uses for links: an anchor tag with an \<open>href\<close>
  attribute, and an anchor whose \<open>href\<close> is a string in which the regular expression
  is found.
\<close>

definition is_anchor_with_href :: "node \<Rightarrow> bool" where
  "is_anchor_with_href e =
     (case e of NavigableString _ \<Rightarrow> False | Tag _ n a _ \<Rightarrow> n = ''a'' \<and> map_of a ''href'' \<noteq> None)"

definition href_satisfies :: "env \<Rightarrow> regex_arg \<Rightarrow> node \<Rightarrow> bool" where
  "href_satisfies env rx e =
     (case e of
        NavigableString _ \<Rightarrow> False
      | Tag _ _ a _ \<Rightarrow>
          (case map_of a ''href'' of
             Some (Str h) \<Rightarrow> search env rx h = Inr True
           | _ \<Rightarrow> False))"

definition passes_filters :: "env \<Rightarrow> links_kwargs \<Rightarrow> node \<Rightarrow> bool" where
  "passes_filters env kw e =
     ((case url_regex kw of Some (Some rx) \<Rightarrow> href_satisfies env rx e | _ \<Rightarrow> True) \<and>
      (case link_text kw of Some t \<Rightarrow> get_text e = t | None \<Rightarrow> True))"





section \<open>A concrete session\<close>

text \<open>
  A page with a form whose \<open>id\<close> is \<open>f\<close>, two controls inside it (the first names the
  form as its owner), one link and one control outside the form that names the form as
  its owner; a server that answers every request with that page, and one that refuses
  every request.
\<close>

definition example_form :: node where
  "example_form =
     Tag 1 ''form'' [(''id'', Str ''f'')]
       [Tag 2 ''input'' [(''form'', Str ''f''), (''name'', Str ''a'')] [],
        Tag 3 ''input'' [(''name'', Str ''b'')] []]"

definition example_page :: node where
  "example_page =
     Tag 0 ''[document]'' []
       [example_form,
        Tag 4 ''a'' [(''href'', Str ''/next'')] [NavigableString ''next''],
        Tag 5 ''input'' [(''form'', Str ''f''), (''name'', Str ''c'')] [],
        Tag 6 ''input'' [(''name'', Str ''d'')] []]"



definition example_request :: prepared_request where
  "example_request =
     \<lparr>req_method = ''GET'', req_url = ''http://example.com/'', req_headers = [], body = ''''\<rparr>"

definition example_response :: response where
  "example_response =
     \<lparr>soup = Some 0, resp_url = ''http://example.com/'', resp_request = Some example_request,
      status_code = 200, content = ''page''\<rparr>"

definition example_env :: env where
  "example_env =
     \<lparr>Browser_get = (\<lambda>w u kw. (Inr example_response, [example_page])),
      Browser_submit = (\<lambda>w f u kw. (Inr example_response, [example_page])),
      Browser_add_soup = (\<lambda>w r cfg. (Inr (Some 0), [example_page])),
      Browser_launch_browser = (\<lambda>w s. None),
      Form_choose_submit = (\<lambda>w f btn. (None, heap w)),
      Form_setitem = (\<lambda>w f nm v. (None, heap w)),
      session_send = (\<lambda>w r. Inr (example_response\<lparr>soup := None\<rparr>)),
      session_get = (\<lambda>w u kw. Inr (example_response\<lparr>soup := None, status_code := 404\<rparr>)),
      css_select = (\<lambda>sel tag. Inr [1]),
      re_search = (\<lambda>p s. Inr True),
      urljoin = (\<lambda>base u. Inr (base @ u))\<rparr>"

definition failing_env :: env where
  "failing_env =
     example_env
       \<lparr>Browser_get := (\<lambda>w u kw. (Inl (LibraryError ''ConnectionError''), heap w)),
        Browser_submit := (\<lambda>w f u kw. (Inl (LibraryError ''ConnectionError''), heap w)),
        session_send := (\<lambda>w r. Inl (LibraryError ''ConnectionError''))\<rparr>"

definition example_world :: world where
  "example_world = \<lparr>heap = [example_page], next_oid = 1, calls = [], files = [], stdout = []\<rparr>"

definition new_browser :: StatefulBrowser where
  "new_browser =
     \<lparr>debug = False, verbose = 0, state = empty_state, session = Some 0,
      soup_config = [(''features'', ''lxml'')], raise_on_404 = True\<rparr>"

definition example_browser :: StatefulBrowser where
  "example_browser =
     new_browser
       \<lparr>state := \<lparr>page = Some 0, url = Some ''http://example.com/'',
                  form = Some \<lparr>oid = 0, wrapped = 1\<rparr>, request = Some example_request\<rparr>\<rparr>"

definition no_kwargs :: kwargs where
  "no_kwargs = \<lparr>headers = None, other = []\<rparr>"

section \<open>Properties of utils.py\<close>

lemma lower_empty: "lower '''' \<noteq> ''file''"
  by (simp add: lower_def)

text \<open>
  C10. For every form tag and every control tag, \<open>is_multipart_file_upload\<close> is true
  exactly when the form's \<open>enctype\<close> attribute is the string \<open>multipart/form-data\<close>
  (compared as it is written) and the control's \<open>type\<close> attribute is a string that
  lowercases to \<open>file\<close>. The function is total: with an attribute missing or
  list-valued the right-hand side fails and the result is \<open>False\<close>.
\<close>

theorem is_multipart_file_upload_iff:
  "is_multipart_file_upload (Tag i n a cs) (Tag j m b ds) \<longleftrightarrow>
     map_of a ''enctype'' = Some (Str ''multipart/form-data'') \<and>
     (\<exists>t. map_of b ''type'' = Some (Str t) \<and> lower t = ''file'')"
  by (auto simp: is_multipart_file_upload_def get_def lower_empty
           split: option.splits attr_value.splits)

section \<open>Properties of the browser state\<close>

lemma open_browser:
  "snd (snd (open env w b u kw)) =
     (case fst (open env w b u kw) of Inl e \<Rightarrow> b | Inr resp \<Rightarrow> b\<lparr>state := new_state resp\<rparr>)"
  by (simp add: open_def Let_def split: prod.splits sum.splits)

lemma refresh_browser:
  "snd (snd (refresh env w b)) =
     (case fst (refresh env w b) of Inl e \<Rightarrow> b | Inr resp \<Rightarrow> b\<lparr>state := new_state resp\<rparr>)"
  by (simp add: refresh_def Let_def split: prod.splits sum.splits option.splits)

lemma submit_selected_browser:
  "snd (snd (submit_selected env w b btn upd kw)) =
     (case fst (submit_selected env w b btn upd kw) of
        Inl e \<Rightarrow> b
      | Inr resp \<Rightarrow> if upd then b\<lparr>state := new_state resp\<rparr> else b)"
  by (simp add: submit_selected_def Let_def split: prod.splits sum.splits option.splits)

lemma find_link_internal_world:
  "heap (snd (find_link_internal env w b link kw)) = heap w \<and>
   calls (snd (find_link_internal env w b link kw)) = calls w \<and>
   files (snd (find_link_internal env w b link kw)) = files w \<and>
   next_oid (snd (find_link_internal env w b link kw)) = next_oid w"
  by (simp add: find_link_internal_def list_links_def Let_def
           split: prod.splits sum.splits option.splits link_arg.splits)

lemma download_link_browser: "snd (snd (download_link env w b link dest lk rk)) = b"
  by (simp add: download_link_def Let_def split: prod.splits sum.splits option.splits)

text \<open>Evaluating the concrete session.\<close>

lemma example_open:
  "open example_env example_world example_browser ''http://example.com/a'' no_kwargs =
     (Inr example_response,
      example_world\<lparr>calls := [BrowserGet ''http://example.com/a'' no_kwargs]\<rparr>,
      example_browser\<lparr>state := new_state example_response\<rparr>)"
  by (simp add: open_def verbose_output_def example_env_def example_world_def
        example_browser_def new_browser_def Let_def)

lemma example_refresh:
  "refresh example_env example_world example_browser =
     (Inr example_response,
      example_world\<lparr>calls := [SessionSend example_request]\<rparr>,
      example_browser\<lparr>state := new_state example_response\<rparr>)"
  by (simp add: refresh_def example_env_def example_world_def example_browser_def
        new_browser_def Let_def example_response_def)

lemma example_submit_selected:
  "fst (submit_selected example_env example_world example_browser BtnNone upd no_kwargs) =
     Inr example_response"
  by (simp add: submit_selected_def form_property_def example_env_def example_world_def
        example_browser_def new_browser_def Let_def)

lemma failing_open:
  "fst (open failing_env example_world example_browser ''http://example.com/a'' no_kwargs) =
     Inl (LibraryError ''ConnectionError'')"
  by (simp add: open_def failing_env_def example_env_def Let_def)

lemma failing_refresh:
  "fst (refresh failing_env example_world example_browser) = Inl (LibraryError ''ConnectionError'')"
  by (simp add: refresh_def failing_env_def example_env_def example_browser_def new_browser_def
        Let_def)

lemma failing_submit_selected:
  "fst (submit_selected failing_env example_world example_browser BtnNone upd no_kwargs) =
     Inl (LibraryError ''ConnectionError'')"
  by (simp add: submit_selected_def form_property_def failing_env_def example_env_def
        example_browser_def new_browser_def Let_def)

text \<open>
  C1. A navigation that returns normally (\<open>open\<close>, \<open>refresh\<close>, \<open>submit_selected\<close> with
  \<open>update_state = True\<close>) leaves the browser with the state built from the response
  alone: the page is the response's soup, the URL the response's URL, the request the
  response's prepared request, and no form is selected. No field is carried over from
  the state before the call.
\<close>

theorem navigation_replaces_state:
  "(open env w b u kw = (Inr resp, w', b') \<longrightarrow>
      state b' = \<lparr>page = soup resp, url = Some (resp_url resp), form = None,
                  request = resp_request resp\<rparr>) \<and>
   (refresh env w b = (Inr resp, w', b') \<longrightarrow>
      state b' = \<lparr>page = soup resp, url = Some (resp_url resp), form = None,
                  request = resp_request resp\<rparr>) \<and>
   (submit_selected env w b btn True kw = (Inr resp, w', b') \<longrightarrow>
      state b' = \<lparr>page = soup resp, url = Some (resp_url resp), form = None,
                  request = resp_request resp\<rparr>)"
  using open_browser[of env w b u kw] refresh_browser[of env w b]
        submit_selected_browser[of env w b btn True kw]
  by (auto simp: new_state_def)

theorem navigation_replaces_state_witness:
  "fst (open example_env example_world example_browser ''http://example.com/a'' no_kwargs) =
     Inr example_response \<and>
   state (snd (snd (open example_env example_world example_browser ''http://example.com/a''
     no_kwargs))) = new_state example_response \<and>
   fst (refresh example_env example_world example_browser) = Inr example_response \<and>
   state (snd (snd (refresh example_env example_world example_browser))) =
     new_state example_response \<and>
   fst (submit_selected example_env example_world example_browser BtnNone True no_kwargs) =
     Inr example_response \<and>
   state (snd (snd (submit_selected example_env example_world example_browser BtnNone True
     no_kwargs))) = new_state example_response"
proof -
  let ?o = "open example_env example_world example_browser ''http://example.com/a'' no_kwargs"
  let ?r = "refresh example_env example_world example_browser"
  let ?s = "submit_selected example_env example_world example_browser BtnNone True no_kwargs"
  have o: "?o = (Inr example_response, fst (snd ?o), snd (snd ?o))"
    by (simp add: example_open)
  have r: "?r = (Inr example_response, fst (snd ?r), snd (snd ?r))"
    by (simp add: example_refresh)
  have s: "?s = (Inr example_response, fst (snd ?s), snd (snd ?s))"
    using example_submit_selected[of True] by (simp add: prod_eq_iff)
  have "state (snd (snd ?o)) = new_state example_response"
    using o navigation_replaces_state[where env = example_env and w = example_world
        and b = example_browser and u = "''http://example.com/a''" and kw = no_kwargs
        and resp = example_response and w' = "fst (snd ?o)" and b' = "snd (snd ?o)"]
    unfolding new_state_def by blast
  moreover have "state (snd (snd ?r)) = new_state example_response"
    using r navigation_replaces_state[where env = example_env and w = example_world
        and b = example_browser and resp = example_response and w' = "fst (snd ?r)"
        and b' = "snd (snd ?r)"]
    unfolding new_state_def by blast
  moreover have "state (snd (snd ?s)) = new_state example_response"
    using s navigation_replaces_state[where env = example_env and w = example_world
        and b = example_browser and btn = BtnNone and kw = no_kwargs
        and resp = example_response and w' = "fst (snd ?s)" and b' = "snd (snd ?s)"]
    unfolding new_state_def by blast
  moreover have "fst ?o = Inr example_response" "fst ?r = Inr example_response"
    "fst ?s = Inr example_response"
    using o r s by (metis fst_conv)+
  ultimately show ?thesis by blast
qed

text \<open>
  C2. A navigation that raises leaves the state as it was before the call. In
  particular \<open>refresh\<close> raises \<open>ValueError\<close> and touches nothing when no request is
  stored, and when \<^verbatim>\<open>Browser.get\<close> raises, \<open>open\<close> raises the same exception
  and the state is unchanged.
\<close>

theorem failed_navigation_keeps_state:
  "(open env w b u kw = (Inl e, w', b') \<longrightarrow> state b' = state b) \<and>
   (refresh env w b = (Inl e, w', b') \<longrightarrow> state b' = state b) \<and>
   (submit_selected env w b btn upd kw = (Inl e, w', b') \<longrightarrow> state b' = state b) \<and>
   (request (state b) = None \<longrightarrow> refresh env w b = (Inl ValueError, w, b)) \<and>
   (fst (Browser_get env (verbose_output w b u) u kw) = Inl e \<longrightarrow>
      fst (open env w b u kw) = Inl e \<and> state (snd (snd (open env w b u kw))) = state b)"
proof -
  have "fst (open env w b u kw) = Inl e \<and> state (snd (snd (open env w b u kw))) = state b"
    if "fst (Browser_get env (verbose_output w b u) u kw) = Inl e"
    using that by (cases "Browser_get env (verbose_output w b u) u kw") (simp add: open_def Let_def)
  then show ?thesis
    using open_browser[of env w b u kw] refresh_browser[of env w b]
      submit_selected_browser[of env w b btn upd kw]
    by (auto simp: refresh_def)
qed

theorem failed_navigation_keeps_state_witness:
  "fst (open failing_env example_world example_browser ''http://example.com/a'' no_kwargs) =
     Inl (LibraryError ''ConnectionError'') \<and>
   state (snd (snd (open failing_env example_world example_browser ''http://example.com/a''
     no_kwargs))) = state example_browser \<and>
   fst (refresh failing_env example_world example_browser) =
     Inl (LibraryError ''ConnectionError'') \<and>
   state (snd (snd (refresh failing_env example_world example_browser))) =
     state example_browser \<and>
   fst (submit_selected failing_env example_world example_browser BtnNone True no_kwargs) =
     Inl (LibraryError ''ConnectionError'') \<and>
   state (snd (snd (submit_selected failing_env example_world example_browser BtnNone True
     no_kwargs))) = state example_browser \<and>
   request (state new_browser) = None \<and>
   refresh failing_env example_world new_browser = (Inl ValueError, example_world, new_browser) \<and>
   fst (Browser_get failing_env
     (verbose_output example_world example_browser ''http://example.com/a'')
     ''http://example.com/a'' no_kwargs) = Inl (LibraryError ''ConnectionError'')"
proof -
  let ?e = "LibraryError ''ConnectionError''"
  let ?o = "open failing_env example_world example_browser ''http://example.com/a'' no_kwargs"
  let ?r = "refresh failing_env example_world example_browser"
  let ?s = "submit_selected failing_env example_world example_browser BtnNone True no_kwargs"
  have o: "?o = (Inl ?e, fst (snd ?o), snd (snd ?o))"
    using failing_open by (simp add: prod_eq_iff)
  have r: "?r = (Inl ?e, fst (snd ?r), snd (snd ?r))"
    using failing_refresh by (simp add: prod_eq_iff)
  have s: "?s = (Inl ?e, fst (snd ?s), snd (snd ?s))"
    using failing_submit_selected[of True] by (simp add: prod_eq_iff)
  have n: "request (state new_browser) = None"
    by (simp add: new_browser_def empty_state_def)
  have "state (snd (snd ?o)) = state example_browser"
    using o failed_navigation_keeps_state[where env = failing_env and w = example_world
        and b = example_browser and u = "''http://example.com/a''" and kw = no_kwargs
        and e = ?e and w' = "fst (snd ?o)" and b' = "snd (snd ?o)"]
    by blast
  moreover have "state (snd (snd ?r)) = state example_browser"
    using r failed_navigation_keeps_state[where env = failing_env and w = example_world
        and b = example_browser and e = ?e and w' = "fst (snd ?r)" and b' = "snd (snd ?r)"]
    by blast
  moreover have "state (snd (snd ?s)) = state example_browser"
    using s failed_navigation_keeps_state[where env = failing_env and w = example_world
        and b = example_browser and btn = BtnNone and upd = True and kw = no_kwargs
        and e = ?e and w' = "fst (snd ?s)" and b' = "snd (snd ?s)"]
    by blast
  moreover have "refresh failing_env example_world new_browser =
      (Inl ValueError, example_world, new_browser)"
    using n failed_navigation_keeps_state[where env = failing_env and w = example_world
        and b = new_browser]
    by blast
  moreover have "fst (Browser_get failing_env
      (verbose_output example_world example_browser ''http://example.com/a'')
      ''http://example.com/a'' no_kwargs) = Inl ?e"
    by (simp add: failing_env_def example_env_def)
  ultimately show ?thesis
    using n failing_open failing_refresh failing_submit_selected[of True] by blast
qed

text \<open>
  C5. \<open>submit_selected\<close> with \<open>update_state = False\<close> and \<open>download_link\<close> are not
  navigations: whatever they return or raise, the browser object, and with it the four
  fields of its state, is the one from before the call.
\<close>

theorem non_navigation_keeps_state:
  "state (snd (snd (submit_selected env w b btn False kw))) = state b \<and>
   state (snd (snd (download_link env w b link dest lk rk))) = state b"
  using submit_selected_browser[of env w b btn False kw]
  by (simp add: download_link_browser split: sum.splits)

text \<open>
  C7. After a successful \<open>open\<close> the \<open>page\<close> property is the soup of the response and
  the \<open>url\<close> property its URL, and a following \<open>open_relative\<close> opens the URL that
  \<open>urljoin\<close> makes from that URL; in any state \<open>open_relative\<close> opens
  \<open>urljoin\<close> of the current URL, or of the empty string when none is stored.
\<close>

theorem open_sets_context:
  "(open env w b u kw = (Inr resp, w', b') \<longrightarrow>
      page_property b' = soup resp \<and> url_property b' = Some (resp_url resp) \<and>
      open_relative env w' b' v kw' =
        (case urljoin env (resp_url resp) v of
           Inl e \<Rightarrow> (Inl e, w', b')
         | Inr a \<Rightarrow> open env w' b' a kw')) \<and>
   open_relative env w b v kw' =
     (case urljoin env (case url_property b of None \<Rightarrow> '''' | Some c \<Rightarrow> c) v of
        Inl e \<Rightarrow> (Inl e, w, b)
      | Inr a \<Rightarrow> open env w b a kw')"
  using open_browser[of env w b u kw]
  by (auto simp: open_relative_def absolute_url_def page_property_def url_property_def
        new_state_def)

theorem open_sets_context_witness:
  "fst (open example_env example_world new_browser ''http://example.com/a'' no_kwargs) =
     Inr example_response \<and>
   page_property (snd (snd (open example_env example_world new_browser
     ''http://example.com/a'' no_kwargs))) = Some 0 \<and>
   url_property (snd (snd (open example_env example_world new_browser
     ''http://example.com/a'' no_kwargs))) = Some ''http://example.com/'' \<and>
   open_relative example_env
     (fst (snd (open example_env example_world new_browser ''http://example.com/a'' no_kwargs)))
     (snd (snd (open example_env example_world new_browser ''http://example.com/a'' no_kwargs)))
     ''next'' no_kwargs =
   open example_env
     (fst (snd (open example_env example_world new_browser ''http://example.com/a'' no_kwargs)))
     (snd (snd (open example_env example_world new_browser ''http://example.com/a'' no_kwargs)))
     ''http://example.com/next'' no_kwargs"
proof -
  let ?o = "open example_env example_world new_browser ''http://example.com/a'' no_kwargs"
  have f: "fst ?o = Inr example_response"
    by (simp add: open_def example_env_def Let_def)
  then have o: "?o = (Inr example_response, fst (snd ?o), snd (snd ?o))"
    by (simp add: prod_eq_iff)
  have j: "urljoin example_env ''http://example.com/'' ''next'' = Inr ''http://example.com/next''"
    by (simp add: example_env_def)
  have s: "soup example_response = Some 0" "resp_url example_response = ''http://example.com/''"
    by (simp_all add: example_response_def)
  have t: "page_property (snd (snd ?o)) = soup example_response \<and>
      url_property (snd (snd ?o)) = Some (resp_url example_response) \<and>
      open_relative example_env (fst (snd ?o)) (snd (snd ?o)) ''next'' no_kwargs =
        (case urljoin example_env (resp_url example_response) ''next'' of
           Inl e \<Rightarrow> (Inl e, fst (snd ?o), snd (snd ?o))
         | Inr a \<Rightarrow> open example_env (fst (snd ?o)) (snd (snd ?o)) a no_kwargs)"
    using o open_sets_context[where env = example_env and w = example_world
        and b = new_browser and u = "''http://example.com/a''" and kw = no_kwargs
        and resp = example_response and w' = "fst (snd ?o)" and b' = "snd (snd ?o)"
        and v = "''next''" and kw' = no_kwargs]
    by blast
  show ?thesis
    using f t by (simp add: j s)
qed

text \<open>
  C8. With no form selected, reading \<open>form\<close> and assigning a field through the browser
  raise \<open>AttributeError\<close>, while \<open>get_current_form\<close> returns \<open>None\<close>; with a form
  selected, \<open>form\<close> and \<open>get_current_form\<close> return that same object.
\<close>

theorem form_access:
  "(form (state b) = None \<longrightarrow>
      form_property b = Inl AttributeError \<and>
      setitem env w b nm v = (Some AttributeError, w, b) \<and>
      get_current_form b = None) \<and>
   (form (state b) = Some f \<longrightarrow> form_property b = Inr f \<and> get_current_form b = Some f)"
  by (simp add: form_property_def setitem_def get_current_form_def)

theorem form_access_witness:
  "form (state new_browser) = None \<and>
   form_property new_browser = Inl AttributeError \<and>
   setitem example_env example_world new_browser ''name'' ''value'' =
     (Some AttributeError, example_world, new_browser) \<and>
   get_current_form new_browser = None \<and>
   form (state example_browser) = Some \<lparr>oid = 0, wrapped = 1\<rparr> \<and>
   form_property example_browser = Inr \<lparr>oid = 0, wrapped = 1\<rparr> \<and>
   get_current_form example_browser = Some \<lparr>oid = 0, wrapped = 1\<rparr>"
proof -
  have n: "form (state new_browser) = None"
    by (simp add: new_browser_def empty_state_def)
  have s: "form (state example_browser) = Some \<lparr>oid = 0, wrapped = 1\<rparr>"
    by (simp add: example_browser_def)
  show ?thesis
    using n s
      form_access[where b = new_browser and env = example_env and w = example_world
        and nm = "''name''" and v = "''value''"]
      form_access[where b = example_browser and f = "\<lparr>oid = 0, wrapped = 1\<rparr>"]
    by blast
qed

section \<open>Properties of the requests made\<close>

lemma open_calls:
  "calls (fst (snd (open env w b u kw))) = calls w @ [BrowserGet u kw]"
  by (simp add: open_def verbose_output_def Let_def split: prod.splits sum.splits)

lemma follow_link_calls:
  "calls (fst (snd (follow_link env w b link lk rk))) = calls w \<or>
   (\<exists>a. calls (fst (snd (follow_link env w b link lk rk))) =
          calls w @ [BrowserGet a (merge_referer b rk)])"
proof (cases "find_link_internal env w b link lk")
  case (Pair r w1)
  have c: "calls w1 = calls w"
    using find_link_internal_world[of env w b link lk] Pair by simp
  show ?thesis
    using Pair c
    by (auto simp: follow_link_def open_relative_def open_calls Let_def split: sum.splits)
qed

lemma submit_selected_calls:
  "calls (fst (snd (submit_selected env w b btn upd kw))) = calls w \<or>
   (\<exists>f. calls (fst (snd (submit_selected env w b btn upd kw))) =
          calls w @ [BrowserSubmit f (url (state b)) (merge_referer b kw)])"
  by (auto simp: submit_selected_def Let_def split: prod.splits sum.splits option.splits)

lemma download_link_calls:
  "calls (fst (snd (download_link env w b link dest lk rk))) = calls w \<or>
   (\<exists>a. calls (fst (snd (download_link env w b link dest lk rk))) =
          calls w @ [SessionGet a (merge_referer b rk)])"
proof (cases "find_link_internal env w b link lk")
  case (Pair r w1)
  have c: "calls w1 = calls w"
    using find_link_internal_world[of env w b link lk] Pair by simp
  show ?thesis
    using Pair c
    by (auto simp: download_link_def Let_def split: sum.splits option.splits)
qed

lemma map_of_foldl_ci_setitem:
  "map_of (foldl (\<lambda>d (k, v). ci_setitem d k v) d items) x \<noteq> None \<longleftrightarrow>
     map_of d x \<noteq> None \<or> x \<in> lower ` fst ` set items"
proof (induction items arbitrary: d)
  case Nil
  then show ?case by simp
next
  case (Cons i items)
  obtain k v where i: "i = (k, v)" by (cases i)
  show ?case
    unfolding i using Cons.IH[of "ci_setitem d k v"]
    by (auto simp: ci_setitem_def update_conv')
qed

lemma ci_contains_Dict:
  "ci_contains (CaseInsensitiveDict (Some (Dict items))) k \<longleftrightarrow>
     lower k \<in> lower ` fst ` set items"
  using map_of_foldl_ci_setitem[of "[]" items "lower k"]
  by (simp add: ci_contains_def CaseInsensitiveDict_def)

lemma open_result:
  "fst (open env w b u kw) = fst (Browser_get env (verbose_output w b u) u kw)"
  by (simp add: open_def Let_def split: prod.splits sum.splits)

lemma follow_link_sends:
  assumes "find_link_internal env w b link lk = (Inr tag, w1)"
    and "href_str tag = Inr h" and "absolute_url env b h = Inr a"
  shows "calls (fst (snd (follow_link env w b link lk kw))) =
      calls w @ [BrowserGet a (merge_referer b kw)] \<and>
    fst (follow_link env w b link lk kw) =
      fst (Browser_get env (verbose_output w1 b a) a (merge_referer b kw))"
proof -
  have c: "calls w1 = calls w"
    using find_link_internal_world[of env w b link lk] assms(1) by simp
  show ?thesis
    using assms c by (simp add: follow_link_def open_relative_def open_calls open_result)
qed

lemma follow_link_returns:
  assumes "fst (follow_link env w b link lk kw) = Inr resp"
  shows "\<exists>tag w1 h a. find_link_internal env w b link lk = (Inr tag, w1) \<and>
    href_str tag = Inr h \<and> absolute_url env b h = Inr a"
proof (cases "find_link_internal env w b link lk")
  case (Pair r w1)
  show ?thesis
    using assms Pair
    by (auto simp: follow_link_def open_relative_def Let_def split: sum.splits)
qed

lemma submit_selected_sends:
  assumes "form (state b) = Some f" and "fst (Form_choose_submit env w f btn) = None"
  shows "calls (fst (snd (submit_selected env w b btn upd kw))) =
      calls w @ [BrowserSubmit f (url (state b)) (merge_referer b kw)] \<and>
    fst (submit_selected env w b btn upd kw) =
      fst (Browser_submit env (w\<lparr>heap := snd (Form_choose_submit env w f btn)\<rparr>) f
             (url (state b)) (merge_referer b kw))"
  using assms
  by (cases "Form_choose_submit env w f btn")
     (simp add: submit_selected_def form_property_def Let_def split: prod.splits sum.splits)

lemma submit_selected_returns:
  assumes "fst (submit_selected env w b btn upd kw) = Inr resp"
  shows "\<exists>f. form (state b) = Some f \<and> fst (Form_choose_submit env w f btn) = None"
  using assms
  by (auto simp: submit_selected_def form_property_def Let_def
        split: prod.splits sum.splits option.splits)

lemma download_link_sends:
  assumes "find_link_internal env w b link lk = (Inr tag, w1)"
    and "href_str tag = Inr h" and "absolute_url env b h = Inr a" and "session b = Some s"
  shows "calls (fst (snd (download_link env w b link dest lk kw))) =
      calls w @ [SessionGet a (merge_referer b kw)] \<and>
    fst (download_link env w b link dest lk kw) =
      (case session_get env w1 a (merge_referer b kw) of
         Inl e \<Rightarrow> Inl e
       | Inr resp \<Rightarrow>
           if raise_on_404 b \<and> status_code resp = 404 then Inl LinkNotFoundError else Inr resp)"
proof -
  have c: "calls w1 = calls w"
    using find_link_internal_world[of env w b link lk] assms(1) by simp
  show ?thesis
    using assms c
    by (simp add: download_link_def Let_def split: sum.splits option.splits)
qed

lemma download_link_returns:
  assumes "fst (download_link env w b link dest lk kw) = Inr resp"
  shows "\<exists>tag w1 h a s. find_link_internal env w b link lk = (Inr tag, w1) \<and>
    href_str tag = Inr h \<and> absolute_url env b h = Inr a \<and> session b = Some s \<and>
    session_get env w1 a (merge_referer b kw) = Inr resp"
proof (cases "find_link_internal env w b link lk")
  case (Pair r w1)
  show ?thesis
    using assms Pair
    by (auto simp: download_link_def Let_def split: sum.splits option.splits if_splits)
qed

text \<open>
  C3. \<open>follow_link\<close>, \<open>submit_selected\<close> and \<open>download_link\<close> hand the keyword arguments
  of \<open>merge_referer\<close> to the HTTP layer. When a URL is stored and the caller's headers
  hold no key that lowercases to \<open>referer\<close>, these arguments map \<open>Referer\<close> to that
  URL; when the caller supplied such a key, or no URL is stored, they are the caller's
  arguments as they came. Each operation makes at most one call; once its link or form
  is resolved it makes exactly one, with these arguments, and its result is what the
  HTTP layer answers to them; and whenever it returns a response, that response is the
  answer to a call with these arguments.
\<close>

theorem referer_header:
  "(url_property b = Some r \<and> \<not> ci_contains (CaseInsensitiveDict (headers kw)) ''Referer'' \<longrightarrow>
      (\<exists>d. headers (merge_referer b kw) = Some (CIDict d) \<and>
           ci_getitem d ''Referer'' = Some r)) \<and>
   (ci_contains (CaseInsensitiveDict (headers kw)) ''Referer'' \<longrightarrow> merge_referer b kw = kw) \<and>
   (url_property b = None \<longrightarrow> merge_referer b kw = kw) \<and>
   (ci_contains (CaseInsensitiveDict (Some (Dict items))) ''Referer'' \<longleftrightarrow>
      ''referer'' \<in> lower ` fst ` set items) \<and>
   (calls (fst (snd (follow_link env w b link lk kw))) = calls w \<or>
    (\<exists>a. calls (fst (snd (follow_link env w b link lk kw))) =
           calls w @ [BrowserGet a (merge_referer b kw)])) \<and>
   (calls (fst (snd (submit_selected env w b btn upd kw))) = calls w \<or>
    (\<exists>f. calls (fst (snd (submit_selected env w b btn upd kw))) =
           calls w @ [BrowserSubmit f (url (state b)) (merge_referer b kw)])) \<and>
   (calls (fst (snd (download_link env w b link dest lk kw))) = calls w \<or>
    (\<exists>a. calls (fst (snd (download_link env w b link dest lk kw))) =
           calls w @ [SessionGet a (merge_referer b kw)])) \<and>
   (find_link_internal env w b link lk = (Inr tag, w1) \<and> href_str tag = Inr h \<and>
    absolute_url env b h = Inr a \<longrightarrow>
      calls (fst (snd (follow_link env w b link lk kw))) =
        calls w @ [BrowserGet a (merge_referer b kw)] \<and>
      fst (follow_link env w b link lk kw) =
        fst (Browser_get env (verbose_output w1 b a) a (merge_referer b kw))) \<and>
   (form (state b) = Some f \<and> fst (Form_choose_submit env w f btn) = None \<longrightarrow>
      calls (fst (snd (submit_selected env w b btn upd kw))) =
        calls w @ [BrowserSubmit f (url (state b)) (merge_referer b kw)] \<and>
      fst (submit_selected env w b btn upd kw) =
        fst (Browser_submit env (w\<lparr>heap := snd (Form_choose_submit env w f btn)\<rparr>) f
               (url (state b)) (merge_referer b kw))) \<and>
   (find_link_internal env w b link lk = (Inr tag, w1) \<and> href_str tag = Inr h \<and>
    absolute_url env b h = Inr a \<and> session b = Some s \<longrightarrow>
      calls (fst (snd (download_link env w b link dest lk kw))) =
        calls w @ [SessionGet a (merge_referer b kw)] \<and>
      fst (download_link env w b link dest lk kw) =
        (case session_get env w1 a (merge_referer b kw) of
           Inl e \<Rightarrow> Inl e
         | Inr resp' \<Rightarrow>
             if raise_on_404 b \<and> status_code resp' = 404 then Inl LinkNotFoundError
             else Inr resp')) \<and>
   (fst (follow_link env w b link lk kw) = Inr resp \<longrightarrow>
      (\<exists>a' w'. calls (fst (snd (follow_link env w b link lk kw))) =
                 calls w @ [BrowserGet a' (merge_referer b kw)] \<and>
               fst (Browser_get env w' a' (merge_referer b kw)) = Inr resp)) \<and>
   (fst (submit_selected env w b btn upd kw) = Inr resp \<longrightarrow>
      (\<exists>f' w'. calls (fst (snd (submit_selected env w b btn upd kw))) =
                 calls w @ [BrowserSubmit f' (url (state b)) (merge_referer b kw)] \<and>
               fst (Browser_submit env w' f' (url (state b)) (merge_referer b kw)) = Inr resp)) \<and>
   (fst (download_link env w b link dest lk kw) = Inr resp \<longrightarrow>
      (\<exists>a' w'. calls (fst (snd (download_link env w b link dest lk kw))) =
                 calls w @ [SessionGet a' (merge_referer b kw)] \<and>
               session_get env w' a' (merge_referer b kw) = Inr resp))"
proof -
  have 1: "url_property b = Some r \<and>
      \<not> ci_contains (CaseInsensitiveDict (headers kw)) ''Referer'' \<longrightarrow>
      (\<exists>d. headers (merge_referer b kw) = Some (CIDict d) \<and> ci_getitem d ''Referer'' = Some r)"
    by (simp add: merge_referer_def Let_def ci_getitem_def ci_setitem_def update_conv')
  have 2: "ci_contains (CaseInsensitiveDict (headers kw)) ''Referer'' \<longrightarrow> merge_referer b kw = kw"
    by (simp add: merge_referer_def Let_def split: option.splits)
  have 3: "url_property b = None \<longrightarrow> merge_referer b kw = kw"
    by (simp add: merge_referer_def Let_def)
  have 4: "ci_contains (CaseInsensitiveDict (Some (Dict items))) ''Referer'' \<longleftrightarrow>
      ''referer'' \<in> lower ` fst ` set items"
    using ci_contains_Dict[of items "''Referer''"] by (simp add: lower_def lower_char_def)
  note 5 = follow_link_calls[of env w b link lk kw]
  note 6 = submit_selected_calls[of env w b btn upd kw]
  note 7 = download_link_calls[of env w b link dest lk kw]
  have 8: "find_link_internal env w b link lk = (Inr tag, w1) \<and> href_str tag = Inr h \<and>
      absolute_url env b h = Inr a \<longrightarrow>
      calls (fst (snd (follow_link env w b link lk kw))) =
        calls w @ [BrowserGet a (merge_referer b kw)] \<and>
      fst (follow_link env w b link lk kw) =
        fst (Browser_get env (verbose_output w1 b a) a (merge_referer b kw))"
    using follow_link_sends[of env w b link lk tag w1 h a kw] by blast
  have 9: "form (state b) = Some f \<and> fst (Form_choose_submit env w f btn) = None \<longrightarrow>
      calls (fst (snd (submit_selected env w b btn upd kw))) =
        calls w @ [BrowserSubmit f (url (state b)) (merge_referer b kw)] \<and>
      fst (submit_selected env w b btn upd kw) =
        fst (Browser_submit env (w\<lparr>heap := snd (Form_choose_submit env w f btn)\<rparr>) f
               (url (state b)) (merge_referer b kw))"
    using submit_selected_sends[of b f env w btn upd kw] by blast
  have 10: "find_link_internal env w b link lk = (Inr tag, w1) \<and> href_str tag = Inr h \<and>
      absolute_url env b h = Inr a \<and> session b = Some s \<longrightarrow>
      calls (fst (snd (download_link env w b link dest lk kw))) =
        calls w @ [SessionGet a (merge_referer b kw)] \<and>
      fst (download_link env w b link dest lk kw) =
        (case session_get env w1 a (merge_referer b kw) of
           Inl e \<Rightarrow> Inl e
         | Inr resp' \<Rightarrow>
             if raise_on_404 b \<and> status_code resp' = 404 then Inl LinkNotFoundError
             else Inr resp')"
    using download_link_sends[of env w b link lk tag w1 h a s dest kw] by blast
  have 11: "fst (follow_link env w b link lk kw) = Inr resp \<longrightarrow>
      (\<exists>a' w'. calls (fst (snd (follow_link env w b link lk kw))) =
                 calls w @ [BrowserGet a' (merge_referer b kw)] \<and>
               fst (Browser_get env w' a' (merge_referer b kw)) = Inr resp)"
  proof
    assume r: "fst (follow_link env w b link lk kw) = Inr resp"
    then obtain tag' w1' h' a' where "find_link_internal env w b link lk = (Inr tag', w1')"
      "href_str tag' = Inr h'" "absolute_url env b h' = Inr a'"
      using follow_link_returns by blast
    then show "\<exists>a' w'. calls (fst (snd (follow_link env w b link lk kw))) =
                 calls w @ [BrowserGet a' (merge_referer b kw)] \<and>
               fst (Browser_get env w' a' (merge_referer b kw)) = Inr resp"
      using follow_link_sends[of env w b link lk tag' w1' h' a' kw] r by metis
  qed
  have 12: "fst (submit_selected env w b btn upd kw) = Inr resp \<longrightarrow>
      (\<exists>f' w'. calls (fst (snd (submit_selected env w b btn upd kw))) =
                 calls w @ [BrowserSubmit f' (url (state b)) (merge_referer b kw)] \<and>
               fst (Browser_submit env w' f' (url (state b)) (merge_referer b kw)) = Inr resp)"
  proof
    assume r: "fst (submit_selected env w b btn upd kw) = Inr resp"
    then obtain f' where "form (state b) = Some f'" "fst (Form_choose_submit env w f' btn) = None"
      using submit_selected_returns by blast
    then show "\<exists>f' w'. calls (fst (snd (submit_selected env w b btn upd kw))) =
                 calls w @ [BrowserSubmit f' (url (state b)) (merge_referer b kw)] \<and>
               fst (Browser_submit env w' f' (url (state b)) (merge_referer b kw)) = Inr resp"
      using submit_selected_sends[of b f' env w btn upd kw] r by metis
  qed
  have 13: "fst (download_link env w b link dest lk kw) = Inr resp \<longrightarrow>
      (\<exists>a' w'. calls (fst (snd (download_link env w b link dest lk kw))) =
                 calls w @ [SessionGet a' (merge_referer b kw)] \<and>
               session_get env w' a' (merge_referer b kw) = Inr resp)"
  proof
    assume r: "fst (download_link env w b link dest lk kw) = Inr resp"
    then obtain tag' w1' h' a' s' where "find_link_internal env w b link lk = (Inr tag', w1')"
      "href_str tag' = Inr h'" "absolute_url env b h' = Inr a'" "session b = Some s'"
      and g: "session_get env w1' a' (merge_referer b kw) = Inr resp"
      using download_link_returns by blast
    then show "\<exists>a' w'. calls (fst (snd (download_link env w b link dest lk kw))) =
                 calls w @ [SessionGet a' (merge_referer b kw)] \<and>
               session_get env w' a' (merge_referer b kw) = Inr resp"
      using download_link_sends[of env w b link lk tag' w1' h' a' s' dest kw] by blast
  qed
  show ?thesis
    by (intro conjI) (fact 1 2 3 4 5 6 7 8 9 10 11 12 13)+
qed


lemmas example_defs =
  example_env_def example_world_def example_browser_def new_browser_def example_page_def
  example_form_def example_response_def example_request_def empty_state_def no_kwargs_def no_links_kwargs_def
  no_bs4_kwargs_def

lemmas lookup_defs = lookup_tag_def all_nodes_def is_object_def

lemmas links_defs =
  find_link_internal_def find_link_def links_def page_property_def find_all_def
  tag_matches_def attr_matches_def truthy_def

lemma example_find_link_internal:
  "find_link_internal example_env example_world example_browser LinkNone no_links_kwargs =
     (Inr (Tag 4 ''a'' [(''href'', Str ''/next'')] [NavigableString ''next'']), example_world)"
  by (simp add: links_defs lookup_defs example_defs Let_def)

lemma example_merge_referer:
  "merge_referer example_browser no_kwargs =
     \<lparr>headers = Some (CIDict [(''referer'', ''Referer'', ''http://example.com/'')]), other = []\<rparr>"
  by (simp add: merge_referer_def url_property_def CaseInsensitiveDict_def ci_contains_def
        ci_setitem_def example_browser_def no_kwargs_def Let_def lower_def lower_char_def)

lemma example_urljoin: "urljoin example_env base u = Inr (base @ u)"
  by (simp add: example_env_def)

lemma example_url: "url_property example_browser = Some ''http://example.com/''"
  by (simp add: url_property_def example_browser_def)

lemma example_follow_link:
  "calls (fst (snd (follow_link example_env example_world example_browser LinkNone
     no_links_kwargs no_kwargs))) =
   [BrowserGet ''http://example.com//next'' (merge_referer example_browser no_kwargs)]"
  by (simp add: follow_link_def example_find_link_internal href_str_def getitem_def
        open_relative_def absolute_url_def example_urljoin example_url open_calls)
     (simp add: example_world_def)

lemma example_submit_selected_calls:
  "form (state example_browser) = Some \<lparr>oid = 0, wrapped = 1\<rparr> \<and>
   fst (Form_choose_submit example_env example_world \<lparr>oid = 0, wrapped = 1\<rparr> BtnNone) = None"
  by (simp add: example_browser_def example_env_def)

lemma example_session:
  "session example_browser = Some 0"
  by (simp add: example_browser_def new_browser_def)

lemma example_href_next:
  "href_str (Tag 4 ''a'' [(''href'', Str ''/next'')] [NavigableString ''next'']) = Inr ''/next''"
  by (simp add: href_str_def getitem_def)

lemma example_absolute_next:
  "absolute_url example_env example_browser ''/next'' = Inr ''http://example.com//next''"
  by (simp add: absolute_url_def example_urljoin example_url)

theorem referer_header_witness:
  "url_property example_browser = Some ''http://example.com/'' \<and>
   \<not> ci_contains (CaseInsensitiveDict (headers no_kwargs)) ''Referer'' \<and>
   (\<exists>d. headers (merge_referer example_browser no_kwargs) = Some (CIDict d) \<and>
        ci_getitem d ''Referer'' = Some ''http://example.com/'') \<and>
   ci_contains (CaseInsensitiveDict (Some (Dict [(''REFERER'', ''http://other.example/'')])))
     ''Referer'' \<and>
   merge_referer example_browser
     \<lparr>headers = Some (Dict [(''REFERER'', ''http://other.example/'')]), other = []\<rparr> =
     \<lparr>headers = Some (Dict [(''REFERER'', ''http://other.example/'')]), other = []\<rparr> \<and>
   url_property new_browser = None \<and>
   merge_referer new_browser no_kwargs = no_kwargs \<and>
   calls (fst (snd (follow_link example_env example_world example_browser LinkNone
     no_links_kwargs no_kwargs))) =
     calls example_world @
     [BrowserGet ''http://example.com//next'' (merge_referer example_browser no_kwargs)] \<and>
   calls (fst (snd (submit_selected example_env example_world example_browser BtnNone True
     no_kwargs))) =
     calls example_world @
     [BrowserSubmit \<lparr>oid = 0, wrapped = 1\<rparr> (url (state example_browser))
        (merge_referer example_browser no_kwargs)] \<and>
   calls (fst (snd (download_link example_env example_world example_browser LinkNone None
     no_links_kwargs no_kwargs))) =
     calls example_world @
     [SessionGet ''http://example.com//next'' (merge_referer example_browser no_kwargs)] \<and>
   fst (submit_selected example_env example_world example_browser BtnNone True no_kwargs) =
     Inr example_response \<and>
   (\<exists>f' w'. calls (fst (snd (submit_selected example_env example_world example_browser BtnNone
                True no_kwargs))) =
              calls example_world @
              [BrowserSubmit f' (url (state example_browser))
                 (merge_referer example_browser no_kwargs)] \<and>
            fst (Browser_submit example_env w' f' (url (state example_browser))
                   (merge_referer example_browser no_kwargs)) = Inr example_response)"
proof -
  let ?k = "\<lparr>headers = Some (Dict [(''REFERER'', ''http://other.example/'')]), other = []\<rparr>"
  let ?t = "Tag 4 ''a'' [(''href'', Str ''/next'')] [NavigableString ''next'']"
  let ?f = "\<lparr>oid = 0, wrapped = 1\<rparr>"
  have u: "url_property example_browser = Some ''http://example.com/''"
    by (simp add: url_property_def example_browser_def)
  have n: "\<not> ci_contains (CaseInsensitiveDict (headers no_kwargs)) ''Referer''"
    by (simp add: ci_contains_def CaseInsensitiveDict_def no_kwargs_def)
  have i: "''referer'' \<in> lower ` fst ` set [(''REFERER'', ''http://other.example/'')]"
    by (simp add: lower_def lower_char_def)
  have v: "url_property new_browser = None"
    by (simp add: url_property_def new_browser_def empty_state_def)
  note c = conjunct2
  note r1 = referer_header[where b = example_browser and r = "''http://example.com/''"
      and kw = no_kwargs, THEN conjunct1]
  note r2 = referer_header[where b = example_browser and kw = ?k, THEN c, THEN conjunct1]
  note r3 = referer_header[where b = new_browser and kw = no_kwargs, THEN c, THEN c,
      THEN conjunct1]
  note r4 = referer_header[where items = "[(''REFERER'', ''http://other.example/'')]",
      THEN c, THEN c, THEN c, THEN conjunct1]
  note t = referer_header[where env = example_env and w = example_world
      and b = example_browser and link = LinkNone and lk = no_links_kwargs and kw = no_kwargs
      and tag = ?t and ?w1.0 = example_world and h = "''/next''"
      and a = "''http://example.com//next''" and s = 0 and f = ?f and btn = BtnNone
      and upd = True and dest = None and resp = example_response]
  note t7 = t[THEN c, THEN c, THEN c, THEN c, THEN c, THEN c, THEN c]
  note t8 = t7[THEN conjunct1]
  note t9 = t7[THEN c, THEN conjunct1]
  note t10 = t7[THEN c, THEN c, THEN conjunct1]
  note t12 = t7[THEN c, THEN c, THEN c, THEN c, THEN conjunct1]
  have 1: "\<exists>d. headers (merge_referer example_browser no_kwargs) = Some (CIDict d) \<and>
      ci_getitem d ''Referer'' = Some ''http://example.com/''"
    using u n r1 by blast
  have 2: "ci_contains (CaseInsensitiveDict (Some (Dict [(''REFERER'', ''http://other.example/'')])))
      ''Referer''"
    using i r4 by blast
  have h: "headers ?k = Some (Dict [(''REFERER'', ''http://other.example/'')])"
    by simp
  have 3: "merge_referer example_browser ?k = ?k"
    using 2 r2 unfolding h by blast
  have 4: "merge_referer new_browser no_kwargs = no_kwargs"
    using v r3 by blast
  have 5: "calls (fst (snd (follow_link example_env example_world example_browser LinkNone
      no_links_kwargs no_kwargs))) =
      calls example_world @
      [BrowserGet ''http://example.com//next'' (merge_referer example_browser no_kwargs)]"
    using t8 example_find_link_internal example_href_next example_absolute_next by blast
  have 6: "calls (fst (snd (submit_selected example_env example_world example_browser BtnNone
      True no_kwargs))) =
      calls example_world @
      [BrowserSubmit ?f (url (state example_browser)) (merge_referer example_browser no_kwargs)]"
    using t9 example_submit_selected_calls by blast
  have 7: "calls (fst (snd (download_link example_env example_world example_browser LinkNone
      None no_links_kwargs no_kwargs))) =
      calls example_world @
      [SessionGet ''http://example.com//next'' (merge_referer example_browser no_kwargs)]"
    using t10 example_find_link_internal example_href_next example_absolute_next example_session
    by blast
  have 8: "fst (submit_selected example_env example_world example_browser BtnNone True
      no_kwargs) = Inr example_response"
    by (rule example_submit_selected)
  have 9: "\<exists>f' w'. calls (fst (snd (submit_selected example_env example_world example_browser
                BtnNone True no_kwargs))) =
              calls example_world @
              [BrowserSubmit f' (url (state example_browser))
                 (merge_referer example_browser no_kwargs)] \<and>
            fst (Browser_submit example_env w' f' (url (state example_browser))
                   (merge_referer example_browser no_kwargs)) = Inr example_response"
    using t12 8 by (rule mp)
  show ?thesis
    by (intro conjI) (fact u n 1 2 3 v 4 5 6 7 8 9)+
qed

section \<open>Properties of download\_link\<close>

lemma download_link_files_on_error:
  "fst (download_link env w b link dest lk rk) = Inl e \<Longrightarrow>
     files (fst (snd (download_link env w b link dest lk rk))) = files w"
proof (cases "find_link_internal env w b link lk")
  case (Pair r w1)
  assume e: "fst (download_link env w b link dest lk rk) = Inl e"
  have c: "files w1 = files w"
    using find_link_internal_world[of env w b link lk] Pair by simp
  show ?thesis
    using Pair c e
    by (auto simp: download_link_def Let_def split: sum.splits option.splits if_splits)
qed



section \<open>Properties of links and find\_link\<close>

lemma find_all_anchors:
  "find_all pg ''a'' [(''href'', IsPresent)] no_bs4_kwargs =
     filter is_anchor_with_href (descendants pg)"
proof -
  have "tag_matches ''a'' [(''href'', IsPresent)] = is_anchor_with_href"
    by (auto simp: fun_eq_iff tag_matches_def is_anchor_with_href_def attr_matches_def
          split: node.splits)
  then show ?thesis
    by (simp add: find_all_def no_bs4_kwargs_def)
qed

lemma find_all_is_Tag: "e \<in> set (find_all pg nm flt kw) \<Longrightarrow> is_Tag e"
  by (auto simp: find_all_def Let_def tag_matches_def dest!: in_set_takeD
        split: if_splits node.splits)

lemma find_all_has_href:
  "e \<in> set (find_all pg nm ((''href'', IsPresent) # flt) kw) \<Longrightarrow> has_attr e ''href''"
  by (auto simp: find_all_def Let_def tag_matches_def attr_matches_def has_attr_def
        dest!: in_set_takeD split: if_splits node.splits)

lemma filter_is_Tag_find_all: "filter is_Tag (find_all pg nm flt kw) = find_all pg nm flt kw"
  using find_all_is_Tag[of _ pg nm flt kw] by (simp add: filter_id_conv)

lemma filter_href_Inr:
  "filter_href env rx xs = Inr ys \<Longrightarrow> list_all is_Tag xs \<Longrightarrow>
     ys = filter (href_satisfies env rx) xs"
proof (induction xs arbitrary: ys)
  case Nil
  then show ?case by simp
next
  case (Cons a as)
  then obtain i n at cs where a: "a = Tag i n at cs"
    by (cases a) auto
  show ?case
    using Cons unfolding a
    by (auto simp: getitem_def href_satisfies_def
          split: option.splits attr_value.splits sum.splits if_splits)
qed

lemma filter_href_returns:
  "list_all (\<lambda>e. has_attr e ''href'') xs \<Longrightarrow> (\<And>h. \<exists>m. search env rx h = Inr m) \<Longrightarrow>
     \<exists>ys. filter_href env rx xs = Inr ys"
proof (induction xs)
  case Nil
  then show ?case by simp
next
  case (Cons a as)
  then obtain ys where ys: "filter_href env rx as = Inr ys"
    by auto
  show ?case
  proof (cases "map_of (attrs a) ''href''")
    case None
    then show ?thesis using Cons.prems(1) by (simp add: has_attr_def)
  next
    case (Some v)
    show ?thesis
    proof (cases v)
      case (Str h)
      obtain m where "search env rx h = Inr m"
        using Cons.prems(2)[of h] by auto
      then show ?thesis
        using Some Str ys by (simp add: getitem_def)
    next
      case (StrList l)
      then show ?thesis
        using Some ys by (simp add: getitem_def)
    qed
  qed
qed


lemma links_no_page: "page_property b = None \<Longrightarrow> links env w b kw = Inr []"
  by (simp add: links_def)

lemma links_result:
  assumes "page_property b = Some p" and "lookup_tag (heap w) p = Some pg"
    and "links env w b kw = Inr ls"
  shows "ls = filter (passes_filters env kw) (find_all pg ''a'' [(''href'', IsPresent)] (bs4 kw))"
proof -
  let ?all = "find_all pg ''a'' [(''href'', IsPresent)] (bs4 kw)"
  let ?P = "\<lambda>e. case url_regex kw of Some (Some rx) \<Rightarrow> href_satisfies env rx e | _ \<Rightarrow> True"
  let ?Q = "\<lambda>e. case link_text kw of Some t \<Rightarrow> get_text e = t | None \<Rightarrow> True"
  let ?step = "case url_regex kw of Some (Some rx) \<Rightarrow> filter_href env rx ?all | _ \<Rightarrow> Inr ?all"
  have t: "list_all is_Tag ?all"
    using find_all_is_Tag[of _ pg] by (simp add: list_all_iff)
  have unfolded: "links env w b kw =
      (if ''href'' \<in> fst ` set (attr_filters (bs4 kw)) then Inl TypeError
       else case ?step of
              Inl e \<Rightarrow> Inl e
            | Inr ys \<Rightarrow>
                Inr (case link_text kw of
                       None \<Rightarrow> ys
                     | Some t \<Rightarrow> filter (\<lambda>a. get_text a = t) ys))"
    using assms(1,2)
    by (simp add: links_def filter_is_Tag_find_all Let_def cong: option.case_cong)
  obtain ys where ys: "?step = Inr ys"
    and ls: "ls = (case link_text kw of None \<Rightarrow> ys | Some t \<Rightarrow> filter (\<lambda>a. get_text a = t) ys)"
  proof (cases ?step)
    case (Inl e)
    then show ?thesis
      using assms(3) unfolding unfolded by (simp split: if_splits)
  next
    case (Inr ys)
    then show ?thesis
      using assms(3) that unfolding unfolded by (simp split: if_splits)
  qed
  have "ys = filter ?P ?all"
  proof (cases "url_regex kw")
    case None
    then show ?thesis using ys by simp
  next
    case (Some r)
    show ?thesis
    proof (cases r)
      case None
      then show ?thesis using ys Some by simp
    next
      case (Some rx)
      have u: "url_regex kw = Some (Some rx)"
        using \<open>url_regex kw = Some r\<close> Some by simp
      have "filter_href env rx ?all = Inr ys"
        using ys u by simp
      then show ?thesis
        using filter_href_Inr[OF _ t] u by simp
    qed
  qed
  moreover have "ls = filter ?Q ys"
    unfolding ls by (simp split: option.splits)
  ultimately have "ls = filter (\<lambda>e. ?P e \<and> ?Q e) ?all"
    by (simp add: conj_commute)
  moreover have "(\<lambda>e. ?P e \<and> ?Q e) = passes_filters env kw"
    by (simp add: fun_eq_iff passes_filters_def)
  ultimately show ?thesis
    by simp
qed

lemma links_returns:
  assumes "page_property b = Some p" and "lookup_tag (heap w) p = Some pg"
    and "''href'' \<notin> fst ` set (attr_filters (bs4 kw))"
    and "\<And>rx h. url_regex kw = Some (Some rx) \<Longrightarrow> \<exists>m. search env rx h = Inr m"
  shows "\<exists>ls. links env w b kw = Inr ls"
proof -
  let ?all = "find_all pg ''a'' [(''href'', IsPresent)] (bs4 kw)"
  have h: "list_all (\<lambda>e. has_attr e ''href'') ?all"
    using find_all_has_href[of _ pg "''a''" "[]" "bs4 kw"] by (simp add: list_all_iff)
  show ?thesis
  proof (cases "\<exists>rx. url_regex kw = Some (Some rx)")
    case True
    then obtain rx where u: "url_regex kw = Some (Some rx)"
      by auto
    obtain ys where "filter_href env rx ?all = Inr ys"
      using filter_href_returns[OF h, of env rx] assms(4)[OF u] by auto
    then show ?thesis
      using assms(1-3) u by (simp add: links_def filter_is_Tag_find_all Let_def cong: option.case_cong)
  next
    case False
    then show ?thesis
      using assms(1-3)
      by (auto simp: links_def filter_is_Tag_find_all Let_def split: option.splits)
  qed
qed

lemma find_link_of_links:
  "links env w b kw = Inr ls \<Longrightarrow>
     find_link env w b kw = (case ls of [] \<Rightarrow> Inl LinkNotFoundError | l # _ \<Rightarrow> Inr l)"
  by (simp add: find_link_def split: list.splits)

text \<open>
  C9. With no page loaded \<open>links\<close> returns the empty list, whatever its arguments.
  With a page, the list it returns is the list of tags that \<^verbatim>\<open>find_all('a', href=True)\<close>
  finds (with no further bs4 arguments: the anchors below the page that have an
  \<open>href\<close>), in document order, cut down to those that pass the \<open>url_regex\<close> and
  \<open>link_text\<close> filters; and \<open>links\<close> does return when the regular expression search
  does not raise. \<open>find_link\<close> returns the first element of a non-empty list and raises
  \<open>LinkNotFoundError\<close> exactly when the list is empty.
\<close>

theorem links_and_find_link:
  "(page_property b = None \<longrightarrow> links env w b kw = Inr []) \<and>
   (page_property b = Some p \<and> lookup_tag (heap w) p = Some pg \<and> links env w b kw = Inr ls \<longrightarrow>
      ls = filter (passes_filters env kw) (find_all pg ''a'' [(''href'', IsPresent)] (bs4 kw))) \<and>
   find_all pg ''a'' [(''href'', IsPresent)] no_bs4_kwargs =
     filter is_anchor_with_href (descendants pg) \<and>
   (page_property b = Some p \<and> lookup_tag (heap w) p = Some pg \<and>
    ''href'' \<notin> fst ` set (attr_filters (bs4 kw)) \<and>
    (\<forall>rx h. url_regex kw = Some (Some rx) \<longrightarrow> (\<exists>m. search env rx h = Inr m)) \<longrightarrow>
      (\<exists>ls'. links env w b kw = Inr ls')) \<and>
   (links env w b kw = Inr ls \<longrightarrow>
      (find_link env w b kw = Inl LinkNotFoundError \<longleftrightarrow> ls = []) \<and>
      (ls \<noteq> [] \<longrightarrow> find_link env w b kw = Inr (hd ls)))"
proof -
  have "(find_link env w b kw = Inl LinkNotFoundError \<longleftrightarrow> ls = []) \<and>
      (ls \<noteq> [] \<longrightarrow> find_link env w b kw = Inr (hd ls))"
    if "links env w b kw = Inr ls"
    using find_link_of_links[OF that] by (cases ls) simp_all
  then show ?thesis
    using links_no_page[of b env w kw] links_result[of b p w pg env kw ls]
      find_all_anchors[of pg] links_returns[of b p w pg kw env]
    by blast
qed


theorem links_and_find_link_witness:
  "page_property new_browser = None \<and>
   links example_env example_world new_browser
     \<lparr>url_regex = Some (Some (Pattern ''next'')), link_text = Some ''next'', bs4 = no_bs4_kwargs\<rparr> =
     Inr [] \<and>
   find_link example_env example_world new_browser
     \<lparr>url_regex = Some (Some (Pattern ''next'')), link_text = Some ''next'', bs4 = no_bs4_kwargs\<rparr> =
     Inl LinkNotFoundError \<and>
   links example_env example_world example_browser
     \<lparr>url_regex = Some (Some (Pattern ''next'')), link_text = Some ''next'', bs4 = no_bs4_kwargs\<rparr> =
     Inr [Tag 4 ''a'' [(''href'', Str ''/next'')] [NavigableString ''next'']] \<and>
   filter (passes_filters example_env
       \<lparr>url_regex = Some (Some (Pattern ''next'')), link_text = Some ''next'',
        bs4 = no_bs4_kwargs\<rparr>)
     (filter is_anchor_with_href (descendants example_page)) =
     [Tag 4 ''a'' [(''href'', Str ''/next'')] [NavigableString ''next'']] \<and>
   find_link example_env example_world example_browser
     \<lparr>url_regex = Some (Some (Pattern ''next'')), link_text = Some ''next'', bs4 = no_bs4_kwargs\<rparr> =
     Inr (Tag 4 ''a'' [(''href'', Str ''/next'')] [NavigableString ''next''])"
proof -
  let ?k = "\<lparr>url_regex = Some (Some (Pattern ''next'')), link_text = Some ''next'',
    bs4 = no_bs4_kwargs\<rparr>"
  let ?a = "Tag 4 ''a'' [(''href'', Str ''/next'')] [NavigableString ''next'']"
  have n: "page_property new_browser = None"
    by (simp add: page_property_def new_browser_def empty_state_def)
  have p: "page_property example_browser = Some 0"
    by (simp add: page_property_def example_browser_def)
  have l: "lookup_tag (heap example_world) 0 = Some example_page"
    by (simp add: lookup_defs example_world_def example_page_def example_form_def)
  have k: "bs4 ?k = no_bs4_kwargs"
    by simp
  have e: "links example_env example_world example_browser ?k = Inr [?a]"
    by (simp add: links_def search_def getitem_def links_defs lookup_defs example_defs Let_def)
  note t1 = links_and_find_link[where b = new_browser and env = example_env
      and w = example_world and kw = ?k and ls = "[]"]
  note t2 = links_and_find_link[where b = example_browser and env = example_env
      and w = example_world and kw = ?k and ls = "[?a]" and p = 0 and pg = example_page]
  have 1: "links example_env example_world new_browser ?k = Inr []"
    using n t1 by blast
  then have 2: "find_link example_env example_world new_browser ?k = Inl LinkNotFoundError"
    using t1 by blast
  have 3: "[?a] = filter (passes_filters example_env ?k)
      (find_all example_page ''a'' [(''href'', IsPresent)] (bs4 ?k))"
    using p l e t2 by blast
  have 4: "find_all example_page ''a'' [(''href'', IsPresent)] no_bs4_kwargs =
      filter is_anchor_with_href (descendants example_page)"
    using t2 by blast
  have 5: "find_link example_env example_world example_browser ?k = Inr (hd [?a])"
    using e t2 by blast
  have 6: "filter (passes_filters example_env ?k)
      (filter is_anchor_with_href (descendants example_page)) = [?a]"
    using 3 unfolding k 4 by (rule sym)
  have 7: "find_link example_env example_world example_browser ?k = Inr ?a"
    using 5 by simp
  show ?thesis
    using n 1 2 e 6 7 by blast
qed

section \<open>Properties of select\_form\<close>




















end
